theory Spec2Isabelle
  imports Main "HOL-Library.Word"
begin

unbundle bit_operations_syntax

section \<open>Identifiers, tail words and the RW lock word\<close>

text \<open>
  The MCS locks of \<^verbatim>\<open>foedus/xct/xct_mcs_impl.cpp\<close>. A thread is named by a 16-bit
  \<^verbatim>\<open>ThreadId\<close>, a queue node by a 16-bit \<^verbatim>\<open>McsBlockIndex\<close> into the owning
  thread's block array, and the two are packed into a 32-bit tail word.
\<close>

type_synonym ThreadId = "16 word"
type_synonym McsBlockIndex = "16 word"

named_theorems mcs_defs "unfolding rules of the lock, block and adaptor primitives"

definition to_tail_int :: "ThreadId \<Rightarrow> McsBlockIndex \<Rightarrow> 32 word" where
  \<comment> \<open>Modelled from the spec: \<^verbatim>\<open>McsRwLock::to_tail_int\<close> and \<^verbatim>\<open>McsLock::to_int\<close> are declared
      in a header that is not part of the sources; the spec gives the packing
      \<^verbatim>\<open>(thread_id << 16) | block_index\<close>.\<close>
  "to_tail_int tail_waiter tail_waiter_block =
     push_bit 16 (ucast tail_waiter) OR ucast tail_waiter_block"

definition tail_thread :: "32 word \<Rightarrow> ThreadId" where
  \<comment> \<open>\<^verbatim>\<open>tail >> 16\<close>, as the source writes it for \<^verbatim>\<open>next_id >> 16\<close>.\<close>
  "tail_thread t = ucast (drop_bit 16 t)"

definition tail_block :: "32 word \<Rightarrow> McsBlockIndex" where
  "tail_block t = ucast (t AND 0xFFFF)"

record McsRwLock =
  tail :: "32 word"
  next_writer :: ThreadId
  nreaders :: "16 word"

text \<open>
  The fields are the source's \<^verbatim>\<open>tail_\<close>, \<^verbatim>\<open>next_writer_\<close> and \<^verbatim>\<open>nreaders_\<close>.
  The source reads and compare-and-swaps the three fields as one 64-bit word
  (\<^verbatim>\<open>reinterpret_cast<uint64_t*>(lock)\<close>). The record has exactly these three fields, so
  equality of records is equality of the 64-bit images.
\<close>

definition kNextWriterNone :: ThreadId where
  \<comment> \<open>Modelled from the spec: \<^verbatim>\<open>McsRwLock::kNextWriterNone\<close> is declared in a header that
      is not part of the sources; the spec gives \<^verbatim>\<open>next_writer\<close> as a 16-bit \<^verbatim>\<open>ThreadId\<close> with
      0 for none.\<close>
  [mcs_defs]: "kNextWriterNone = 0"

definition McsRwLock_init :: McsRwLock where
  \<comment> \<open>the default-constructed \<^verbatim>\<open>McsRwLock tmp;\<close> of the try paths: the empty lock word\<close>
  [mcs_defs]: "McsRwLock_init = \<lparr>tail = 0, next_writer = kNextWriterNone, nreaders = 0\<rparr>"

section \<open>Memory, adaptor and outcomes\<close>

text \<open>
  The shared memory seen by the RW algorithms: the lock word, every thread's block array
  (addressed by thread and block index, which is what \<^verbatim>\<open>dereference_rw_tail_block\<close>,
  \<^verbatim>\<open>get_rw_my_block\<close> and \<^verbatim>\<open>get_rw_other_block\<close> of the adaptor resolve to) and every thread's
  current block counter.
\<close>

record 'b mem =
  lock :: McsRwLock
  blocks :: "ThreadId \<times> McsBlockIndex \<Rightarrow> 'b"
  cur_block :: "ThreadId \<Rightarrow> McsBlockIndex"

text \<open>
  An operation is run by one thread without interference from the others: from its call
  until it returns (\<open>Ret\<close>, with the result and the memory) or until it reaches a
  \<^verbatim>\<open>spin_until\<close> whose condition is false in the memory as it then is. There the thread
  waits: \<open>Spin\<close> holds the condition, the rest of the operation and the memory at that
  point, and only another thread can let it go on. \<open>resume\<close> runs a waiting thread on the
  memory the others have left: it tests the condition again and goes on with the rest of
  the operation. \<open>OutOfBlocks\<close> is the adaptor's error, \<open>OutOfFuel\<close> the end of the fuel of
  a loop that is given fuel.
\<close>

datatype ('a, 's) outcome =
  Ret 'a 's
| Spin "'s \<Rightarrow> bool" "'s \<Rightarrow> ('a, 's) outcome" 's
| OutOfBlocks 's
| OutOfFuel 's

primrec then_run ::
  "('a, 's) outcome \<Rightarrow> ('a \<Rightarrow> 's \<Rightarrow> ('b, 's) outcome) \<Rightarrow> ('b, 's) outcome" where
  "then_run (Ret v s) f = f v s"
| "then_run (Spin c k s) f = Spin c (\<lambda>s'. then_run (k s') f) s"
| "then_run (OutOfBlocks s) f = OutOfBlocks s"
| "then_run (OutOfFuel s) f = OutOfFuel s"

definition spin_until :: "('s \<Rightarrow> bool) \<Rightarrow> 's \<Rightarrow> ('s \<Rightarrow> ('a, 's) outcome) \<Rightarrow> ('a, 's) outcome" where
  "spin_until spin_until_cond s k = (if spin_until_cond s then k s else Spin spin_until_cond k s)"

primrec resume :: "('a, 's) outcome \<Rightarrow> 's \<Rightarrow> ('a, 's) outcome" where
  "resume (Ret v s0) s = Ret v s0"
| "resume (Spin c k s0) s = (if c s then k s else Spin c k s)"
| "resume (OutOfBlocks s0) s = OutOfBlocks s0"
| "resume (OutOfFuel s0) s = OutOfFuel s0"

primrec spinning :: "('a, 's) outcome \<Rightarrow> bool" where
  "spinning (Ret v s) = False"
| "spinning (Spin c k s) = True"
| "spinning (OutOfBlocks s) = False"
| "spinning (OutOfFuel s) = False"

primrec mem_of :: "('a, 's) outcome \<Rightarrow> 's" where
  "mem_of (Ret v s) = s"
| "mem_of (Spin c k s) = s"
| "mem_of (OutOfBlocks s) = s"
| "mem_of (OutOfFuel s) = s"

text \<open>
  \<open>may_return m v s\<close>: the operation \<open>m\<close> returns \<open>v\<close> with the memory \<open>s\<close>, at once or after
  being resumed any number of times, each time on any memory in which the condition it
  waits for holds. Between two waits the other threads may have done anything.
\<close>

inductive may_return :: "('a, 's) outcome \<Rightarrow> 'a \<Rightarrow> 's \<Rightarrow> bool" where
  returned: "may_return (Ret v s) v s"
| resumed: "c s' \<Longrightarrow> may_return (k s') v s'' \<Longrightarrow> may_return (Spin c k s) v s''"

definition issue_new_block ::
  "ThreadId \<Rightarrow> 'b mem \<Rightarrow> (McsBlockIndex \<Rightarrow> 'b mem \<Rightarrow> ('a, 'b mem) outcome) \<Rightarrow> ('a, 'b mem) outcome" where
  \<comment> \<open>Modelled from the spec: the adaptor is not part of the sources. The spec has
      \<^verbatim>\<open>issue_new_block() \<rightarrow> BlockIndex\<close> (non-zero, monotone) and the adaptor-level error
      \<^verbatim>\<open>OutOfBlocks\<close> when the counter would exceed the 16-bit limit.\<close>
  "issue_new_block my_id s k =
     (if cur_block s my_id < 0xFFFF
      then k (cur_block s my_id + 1) (s\<lparr>cur_block := (cur_block s)(my_id := cur_block s my_id + 1)\<rparr>)
      else OutOfBlocks s)"

definition dereference_rw_tail_block :: "32 word \<Rightarrow> ThreadId \<times> McsBlockIndex" where
  \<comment> \<open>Modelled from the spec: \<^verbatim>\<open>dereference_tail(tail_word)\<close> decodes a tail to a block.\<close>
  "dereference_rw_tail_block t = (tail_thread t, tail_block t)"

definition upd_block :: "ThreadId \<times> McsBlockIndex \<Rightarrow> ('b \<Rightarrow> 'b) \<Rightarrow> 'b mem \<Rightarrow> 'b mem" where
  \<comment> \<open>a write through a block pointer\<close>
  "upd_block p f s = s\<lparr>blocks := (blocks s)(p := f (blocks s p))\<rparr>"

subsection \<open>Atomic operations on the lock word\<close>

text \<open>
  Modelled from the spec: the methods of \<^verbatim>\<open>McsRwLock\<close> are declared in a header that is not
  part of the sources. \<^verbatim>\<open>increment_nreaders\<close> and \<^verbatim>\<open>decrement_nreaders\<close> are 16-bit
  fetch-and-add; the decrement returns the value before it ("if result == 1 (I was the
  last)").
\<close>

definition increment_nreaders :: "'b mem \<Rightarrow> 'b mem" where
  [mcs_defs]: "increment_nreaders s = s\<lparr>lock := (lock s)\<lparr>nreaders := nreaders (lock s) + 1\<rparr>\<rparr>"

definition decrement_nreaders :: "'b mem \<Rightarrow> 16 word \<times> 'b mem" where
  [mcs_defs]: "decrement_nreaders s =
     (nreaders (lock s), s\<lparr>lock := (lock s)\<lparr>nreaders := nreaders (lock s) - 1\<rparr>\<rparr>)"

definition set_tail :: "32 word \<Rightarrow> 'b mem \<Rightarrow> 'b mem" where
  [mcs_defs]: "set_tail t s = s\<lparr>lock := (lock s)\<lparr>tail := t\<rparr>\<rparr>"

definition set_next_writer :: "ThreadId \<Rightarrow> 'b mem \<Rightarrow> 'b mem" where
  [mcs_defs]: "set_next_writer w s = s\<lparr>lock := (lock s)\<lparr>next_writer := w\<rparr>\<rparr>"

definition raw_atomic_compare_exchange_weak ::
  "bool \<Rightarrow> McsRwLock \<Rightarrow> McsRwLock \<Rightarrow> McsRwLock \<Rightarrow> bool \<times> McsRwLock" where
  \<comment> \<open>the 64-bit \<^verbatim>\<open>raw_atomic_compare_exchange_weak<uint64_t>\<close> on the whole lock word, from
      the word in memory, the expected and the desired word to the result and the word in
      memory afterwards; a weak compare-exchange may fail although the words agree, and
      \<open>spurious\<close> says whether this one does\<close>
  "raw_atomic_compare_exchange_weak spurious current expected desired =
     (if current = expected \<and> \<not> spurious then (True, desired) else (False, current))"

definition fresh_mem :: "'b \<Rightarrow> 'b mem" where
  \<comment> \<open>the memory before any thread has touched the lock: the empty lock word, every
      block \<open>b\<close>, every block counter 0\<close>
  "fresh_mem b = \<lparr>lock = McsRwLock_init, blocks = (\<lambda>_. b), cur_block = (\<lambda>_. 0)\<rparr>"

section \<open>The Simple MCS-RW lock\<close>

datatype SuccessorClass = kSuccessorClassNone | kSuccessorClassReader | kSuccessorClassWriter

text \<open>
  Modelled from the spec: \<^verbatim>\<open>McsRwSimpleBlock\<close> is declared in a header that is not part of
  the sources. Its \<^verbatim>\<open>self\<close> is a 16-bit state word encoding is-reader/is-writer,
  blocked/granted, the successor class and the finalized flag; beside it are
  \<^verbatim>\<open>successor_thread_id\<close> and \<^verbatim>\<open>successor_block_index\<close>.
\<close>

record Self =
  class_reader :: bool
  blocked :: bool
  finalized :: bool
  successor_class :: SuccessorClass

record McsRwSimpleBlock =
  self :: Self
  successor_thread_id :: ThreadId
  successor_block_index :: McsBlockIndex

type_synonym smem = "McsRwSimpleBlock mem"

definition init_reader :: "McsRwSimpleBlock \<Rightarrow> McsRwSimpleBlock" where
  [mcs_defs]: "init_reader b =
     \<lparr>self = \<lparr>class_reader = True, blocked = True, finalized = False,
               successor_class = kSuccessorClassNone\<rparr>,
      successor_thread_id = 0, successor_block_index = 0\<rparr>"

definition init_writer :: "McsRwSimpleBlock \<Rightarrow> McsRwSimpleBlock" where
  [mcs_defs]: "init_writer b =
     \<lparr>self = \<lparr>class_reader = False, blocked = True, finalized = False,
               successor_class = kSuccessorClassNone\<rparr>,
      successor_thread_id = 0, successor_block_index = 0\<rparr>"

definition is_reader :: "McsRwSimpleBlock \<Rightarrow> bool" where
  [mcs_defs]: "is_reader b = class_reader (self b)"

definition is_blocked :: "McsRwSimpleBlock \<Rightarrow> bool" where
  [mcs_defs]: "is_blocked b = blocked (self b)"

definition is_granted :: "McsRwSimpleBlock \<Rightarrow> bool" where
  [mcs_defs]: "is_granted b = (\<not> blocked (self b))"

definition is_finalized :: "McsRwSimpleBlock \<Rightarrow> bool" where
  [mcs_defs]: "is_finalized b = finalized (self b)"

definition unblock :: "McsRwSimpleBlock \<Rightarrow> McsRwSimpleBlock" where
  [mcs_defs]: "unblock b = b\<lparr>self := (self b)\<lparr>blocked := False\<rparr>\<rparr>"

definition set_finalized :: "McsRwSimpleBlock \<Rightarrow> McsRwSimpleBlock" where
  [mcs_defs]: "set_finalized b = b\<lparr>self := (self b)\<lparr>finalized := True\<rparr>\<rparr>"

definition has_reader_successor :: "McsRwSimpleBlock \<Rightarrow> bool" where
  [mcs_defs]: "has_reader_successor b = (successor_class (self b) = kSuccessorClassReader)"

definition has_writer_successor :: "McsRwSimpleBlock \<Rightarrow> bool" where
  [mcs_defs]: "has_writer_successor b = (successor_class (self b) = kSuccessorClassWriter)"

definition successor_is_ready :: "McsRwSimpleBlock \<Rightarrow> bool" where
  \<comment> \<open>whether the successor has installed its thread id and block index after this block\<close>
  [mcs_defs]: "successor_is_ready b = (successor_block_index b \<noteq> 0)"

definition set_successor_class_writer :: "McsRwSimpleBlock \<Rightarrow> McsRwSimpleBlock" where
  [mcs_defs]: "set_successor_class_writer b =
     b\<lparr>self := (self b)\<lparr>successor_class := kSuccessorClassWriter\<rparr>\<rparr>"

definition set_successor_next_only ::
  "ThreadId \<Rightarrow> McsBlockIndex \<Rightarrow> McsRwSimpleBlock \<Rightarrow> McsRwSimpleBlock" where
  [mcs_defs]: "set_successor_next_only my_id block_index b =
     b\<lparr>successor_thread_id := my_id, successor_block_index := block_index\<rparr>"

definition make_blocked_with_no_successor_state :: Self where
  [mcs_defs]: "make_blocked_with_no_successor_state =
     \<lparr>class_reader = True, blocked = True, finalized = False,
      successor_class = kSuccessorClassNone\<rparr>"

definition make_blocked_with_reader_successor_state :: Self where
  [mcs_defs]: "make_blocked_with_reader_successor_state =
     \<lparr>class_reader = True, blocked = True, finalized = False,
      successor_class = kSuccessorClassReader\<rparr>"

subsection \<open>Operations of \<^verbatim>\<open>McsImpl<ADAPTOR, McsRwSimpleBlock>\<close>\<close>

text \<open>
  Every operation takes the calling thread's my_id (\<^verbatim>\<open>adaptor_.get_my_id()\<close>). A
  \<^verbatim>\<open>compare_exchange_weak\<close> may fail although the values agree: where the source uses its
  result once, the parameter \<open>spurious\<close> says whether it does.
\<close>

definition finalize_acquire_reader_simple ::
  "ThreadId \<times> McsBlockIndex \<Rightarrow> smem \<Rightarrow> (unit, smem) outcome" where
  "finalize_acquire_reader_simple my_block s =
     (if has_reader_successor (blocks s my_block)
      then spin_until (\<lambda>s. successor_is_ready (blocks s my_block)) s (\<lambda>s.
        let successor_block =
              (successor_thread_id (blocks s my_block), successor_block_index (blocks s my_block));
            s = increment_nreaders s;
            s = upd_block successor_block unblock s
        in Ret () (upd_block my_block set_finalized s))
      else Ret () (upd_block my_block set_finalized s))"

definition retry_async_rw_reader_simple ::
  "bool \<Rightarrow> ThreadId \<Rightarrow> McsBlockIndex \<Rightarrow> smem \<Rightarrow> (bool, smem) outcome" where
  "retry_async_rw_reader_simple spurious my_id block_index s =
     (let ll = lock s in
      if next_writer ll \<noteq> kNextWriterNone then Ret False s
      else
        let block = dereference_rw_tail_block (tail ll) in
        if tail ll = 0 \<or> (is_granted (blocks s block) \<and> is_reader (blocks s block))
        then
          let desired = ll\<lparr>nreaders := nreaders ll + 1, tail := to_tail_int my_id block_index\<rparr>;
              my_block = (my_id, block_index);
              s = upd_block my_block init_reader s;
              (swapped, now) = raw_atomic_compare_exchange_weak spurious (lock s) ll desired;
              s = s\<lparr>lock := now\<rparr>
          in if swapped
             then
               let s = (if tail ll \<noteq> 0
                        then upd_block block (set_successor_next_only my_id block_index) s else s);
                   s = upd_block my_block unblock s
               in then_run (finalize_acquire_reader_simple my_block s) (\<lambda>_ s. Ret True s)
             else Ret False s
        else Ret False s)"

definition retry_async_rw_writer_simple ::
  "bool \<Rightarrow> ThreadId \<Rightarrow> McsBlockIndex \<Rightarrow> smem \<Rightarrow> (bool, smem) outcome" where
  "retry_async_rw_writer_simple spurious my_id block_index s =
     (let my_block = (my_id, block_index);
          s = upd_block my_block init_writer s;
          expected = McsRwLock_init;
          desired = McsRwLock_init\<lparr>tail := to_tail_int my_id block_index\<rparr>;
          s = upd_block my_block unblock s;
          (swapped, now) = raw_atomic_compare_exchange_weak spurious (lock s) expected desired
      in Ret swapped (s\<lparr>lock := now\<rparr>))"

definition acquire_try_rw_writer_simple :: "bool \<Rightarrow> ThreadId \<Rightarrow> smem \<Rightarrow> (McsBlockIndex, smem) outcome" where
  "acquire_try_rw_writer_simple spurious my_id s =
     issue_new_block my_id s (\<lambda>block_index s.
       then_run (retry_async_rw_writer_simple spurious my_id block_index s) (\<lambda>success s.
         Ret (if success then block_index else 0) s))"

definition acquire_try_rw_reader_simple :: "bool \<Rightarrow> ThreadId \<Rightarrow> smem \<Rightarrow> (McsBlockIndex, smem) outcome" where
  "acquire_try_rw_reader_simple spurious my_id s =
     issue_new_block my_id s (\<lambda>block_index s.
       then_run (retry_async_rw_reader_simple spurious my_id block_index s) (\<lambda>success s.
         Ret (if success then block_index else 0) s))"

definition acquire_async_rw_reader_simple ::
  "bool \<Rightarrow> ThreadId \<Rightarrow> smem \<Rightarrow> (bool \<times> McsBlockIndex, smem) outcome" where
  "acquire_async_rw_reader_simple spurious my_id s =
     issue_new_block my_id s (\<lambda>block_index s.
       then_run (retry_async_rw_reader_simple spurious my_id block_index s) (\<lambda>success s.
         Ret (success, block_index) s))"

definition acquire_async_rw_writer_simple ::
  "bool \<Rightarrow> ThreadId \<Rightarrow> smem \<Rightarrow> (bool \<times> McsBlockIndex, smem) outcome" where
  "acquire_async_rw_writer_simple spurious my_id s =
     issue_new_block my_id s (\<lambda>block_index s.
       then_run (retry_async_rw_writer_simple spurious my_id block_index s) (\<lambda>success s.
         Ret (success, block_index) s))"

definition cancel_async_rw_reader_simple :: "ThreadId \<Rightarrow> McsBlockIndex \<Rightarrow> smem \<Rightarrow> (unit, smem) outcome" where
  "cancel_async_rw_reader_simple my_id block_index s = Ret () s"

definition cancel_async_rw_writer_simple :: "ThreadId \<Rightarrow> McsBlockIndex \<Rightarrow> smem \<Rightarrow> (unit, smem) outcome" where
  "cancel_async_rw_writer_simple my_id block_index s = Ret () s"

definition acquire_unconditional_rw_reader_simple :: "ThreadId \<Rightarrow> smem \<Rightarrow> (McsBlockIndex, smem) outcome" where
  "acquire_unconditional_rw_reader_simple my_id s =
     issue_new_block my_id s (\<lambda>block_index s.
       let my_block = (my_id, block_index);
           s = upd_block my_block init_reader s;
           tail_desired = to_tail_int my_id block_index;
           pred_tail_int = tail (lock s);
           s = set_tail tail_desired s
       in if pred_tail_int = 0
          then
            let s = increment_nreaders s;
                s = upd_block my_block unblock s
            in then_run (finalize_acquire_reader_simple my_block s) (\<lambda>_ s. Ret block_index s)
          else
            let pred_block = dereference_rw_tail_block pred_tail_int in
            if \<not> is_reader (blocks s pred_block)
            then
              let s = upd_block pred_block (set_successor_next_only my_id block_index) s in
              spin_until (\<lambda>s. is_granted (blocks s my_block)) s (\<lambda>s.
                then_run (finalize_acquire_reader_simple my_block s) (\<lambda>_ s. Ret block_index s))
            else if self (blocks s pred_block) = make_blocked_with_no_successor_state
            then
              let s = upd_block pred_block
                        (\<lambda>b. b\<lparr>self := make_blocked_with_reader_successor_state\<rparr>) s;
                  s = upd_block pred_block (set_successor_next_only my_id block_index) s
              in spin_until (\<lambda>s. is_granted (blocks s my_block)) s (\<lambda>s.
                   then_run (finalize_acquire_reader_simple my_block s) (\<lambda>_ s. Ret block_index s))
            else
              let s = increment_nreaders s;
                  s = upd_block pred_block (set_successor_next_only my_id block_index) s;
                  s = upd_block my_block unblock s
              in then_run (finalize_acquire_reader_simple my_block s) (\<lambda>_ s. Ret block_index s))"

definition release_rw_reader_simple :: "ThreadId \<Rightarrow> McsBlockIndex \<Rightarrow> smem \<Rightarrow> (unit, smem) outcome" where
  "release_rw_reader_simple my_id block_index s =
     (let my_block = (my_id, block_index);
          expected = to_tail_int my_id block_index;
          finish = (\<lambda>s.
            let (old, s) = decrement_nreaders s in
            if old = 1
            then
              let next_writer_id = next_writer (lock s) in
              if next_writer_id \<noteq> kNextWriterNone \<and> nreaders (lock s) = 0
              then
                let s = set_next_writer kNextWriterNone s;
                    next_cur_block = cur_block s next_writer_id;
                    writer_block = (next_writer_id, next_cur_block)
                in Ret () (upd_block writer_block unblock s)
              else Ret () s
            else Ret () s)
      in if successor_is_ready (blocks s my_block) \<or> tail (lock s) \<noteq> expected
         then
           spin_until (\<lambda>s. successor_is_ready (blocks s my_block)) s (\<lambda>s.
             finish (if has_writer_successor (blocks s my_block)
                     then set_next_writer (successor_thread_id (blocks s my_block)) s
                     else s))
         else finish (set_tail 0 s))"

definition acquire_unconditional_rw_writer_simple :: "ThreadId \<Rightarrow> smem \<Rightarrow> (McsBlockIndex, smem) outcome" where
  "acquire_unconditional_rw_writer_simple my_id s =
     issue_new_block my_id s (\<lambda>block_index s.
       let my_block = (my_id, block_index);
           s = upd_block my_block init_writer s;
           tail_desired = to_tail_int my_id block_index;
           pred_tail_int = tail (lock s);
           s = set_tail tail_desired s;
           wait = (\<lambda>s. spin_until (\<lambda>s. is_granted (blocks s my_block)) s (\<lambda>s. Ret block_index s))
       in if pred_tail_int = 0
          then
            let s = set_next_writer my_id s in
            if nreaders (lock s) = 0
            then
              let old_next_writer = next_writer (lock s);
                  s = set_next_writer kNextWriterNone s
              in if old_next_writer = my_id
                 then Ret block_index (upd_block my_block unblock s)
                 else wait s
            else wait s
          else
            let pred_block = dereference_rw_tail_block pred_tail_int;
                s = upd_block pred_block set_successor_class_writer s;
                s = upd_block pred_block (set_successor_next_only my_id block_index) s
            in wait s)"

definition release_rw_writer_simple :: "ThreadId \<Rightarrow> McsBlockIndex \<Rightarrow> smem \<Rightarrow> (unit, smem) outcome" where
  "release_rw_writer_simple my_id block_index s =
     (let my_block = (my_id, block_index);
          expected = to_tail_int my_id block_index
      in if successor_is_ready (blocks s my_block) \<or> tail (lock s) \<noteq> expected
         then
           spin_until (\<lambda>s. successor_is_ready (blocks s my_block)) s (\<lambda>s.
             let successor_block =
                   (successor_thread_id (blocks s my_block),
                    successor_block_index (blocks s my_block));
                 s = (if is_reader (blocks s successor_block) then increment_nreaders s else s)
             in Ret () (upd_block successor_block unblock s))
         else Ret () (set_tail 0 s))"

section \<open>The Extended MCS-RW lock\<close>

datatype PredFlag = kPredFlagWaiting | kPredFlagGranted

datatype SuccFlag =
  kSuccFlagWaiting | kSuccFlagLeaving | kSuccFlagDirectGranted | kSuccFlagLeavingGranted

datatype SuccFlagSuccessor =
  kSuccFlagSuccessorNone | kSuccFlagSuccessorReader | kSuccFlagSuccessorWriter

datatype ErrorCode = kErrorCodeOk | kErrorCodeLockRequested | kErrorCodeLockCancelled

text \<open>
  Modelled from the spec: \<^verbatim>\<open>McsRwExtendedBlock\<close>, its constants and its accessors are
  declared in a header that is not part of the sources. The spec gives the block as
  \<^verbatim>\<open>pred = (pred_tail << 32) | pred_flags\<close> with \<^verbatim>\<open>pred_flags\<close> Waiting or Granted, and
  \<^verbatim>\<open>next = (next_id << 32) | next_flags\<close>, where \<^verbatim>\<open>next_flags\<close> holds a state (Waiting,
  Leaving, DirectGranted, LeavingGranted), a successor class (None, Reader, Writer) and
  a Busy bit, with a fixed reader or writer role set at init. The fields of the flags
  word are kept apart here: \<open>flag_state\<close> is the part under \<^verbatim>\<open>kSuccFlagMask\<close>, \<open>flag_busy\<close>
  the bit \<^verbatim>\<open>kSuccFlagBusy\<close>, \<open>flag_successor\<close> the part under
  \<^verbatim>\<open>kSuccFlagSuccessorClassMask\<close>.
\<close>

record NextFlags =
  flag_state :: SuccFlag
  flag_busy :: bool
  flag_successor :: SuccFlagSuccessor

record McsRwExtendedBlock =
  pred_flags :: PredFlag
  pred_id :: "32 word"
  next_flags :: NextFlags
  next_id :: "32 word"
  role_reader :: bool

type_synonym xmem = "McsRwExtendedBlock mem"

definition kSuccIdSuccessorLeaving :: "32 word" where
  \<comment> \<open>Modelled from the spec: the sentinel "my successor is currently cancelling"; the
      value is the header's, the largest 32-bit word.\<close>
  "kSuccIdSuccessorLeaving = 0xFFFFFFFF"

definition kSuccIdNoSuccessor :: "32 word" where
  \<comment> \<open>Modelled from the spec: the sentinel "I already handled the successor".\<close>
  "kSuccIdNoSuccessor = 0xFFFFFFFE"

definition kPredIdAcquired :: "32 word" where
  \<comment> \<open>Modelled from the spec: the sentinel "predecessor passed the lock to me".\<close>
  "kPredIdAcquired = 0xFFFFFFFF"

definition kTimeoutNever :: int where
  "kTimeoutNever = - 1"

definition kTimeoutZero :: int where
  "kTimeoutZero = 0"

definition init_reader_ext :: "McsRwExtendedBlock \<Rightarrow> McsRwExtendedBlock" where
  [mcs_defs]: "init_reader_ext b =
     \<lparr>pred_flags = kPredFlagWaiting, pred_id = 0,
      next_flags = \<lparr>flag_state = kSuccFlagWaiting, flag_busy = False,
                    flag_successor = kSuccFlagSuccessorNone\<rparr>,
      next_id = 0, role_reader = True\<rparr>"

definition init_writer_ext :: "McsRwExtendedBlock \<Rightarrow> McsRwExtendedBlock" where
  [mcs_defs]: "init_writer_ext b =
     \<lparr>pred_flags = kPredFlagWaiting, pred_id = 0,
      next_flags = \<lparr>flag_state = kSuccFlagWaiting, flag_busy = False,
                    flag_successor = kSuccFlagSuccessorNone\<rparr>,
      next_id = 0, role_reader = False\<rparr>"

definition is_reader_ext :: "McsRwExtendedBlock \<Rightarrow> bool" where
  [mcs_defs]: "is_reader_ext b = role_reader b"

definition is_writer :: "McsRwExtendedBlock \<Rightarrow> bool" where
  [mcs_defs]: "is_writer b = (\<not> role_reader b)"

definition pred_flag_is_granted :: "McsRwExtendedBlock \<Rightarrow> bool" where
  [mcs_defs]: "pred_flag_is_granted b = (pred_flags b = kPredFlagGranted)"

definition pred_flag_is_waiting :: "McsRwExtendedBlock \<Rightarrow> bool" where
  [mcs_defs]: "pred_flag_is_waiting b = (pred_flags b = kPredFlagWaiting)"

definition set_pred_flag_granted :: "McsRwExtendedBlock \<Rightarrow> McsRwExtendedBlock" where
  [mcs_defs]: "set_pred_flag_granted b = b\<lparr>pred_flags := kPredFlagGranted\<rparr>"

definition set_pred_id :: "32 word \<Rightarrow> McsRwExtendedBlock \<Rightarrow> McsRwExtendedBlock" where
  [mcs_defs]: "set_pred_id v b = b\<lparr>pred_id := v\<rparr>"

definition set_next_id :: "32 word \<Rightarrow> McsRwExtendedBlock \<Rightarrow> McsRwExtendedBlock" where
  [mcs_defs]: "set_next_id v b = b\<lparr>next_id := v\<rparr>"

fun granted_state :: "SuccFlag \<Rightarrow> SuccFlag" where
  \<comment> \<open>setting the granted part of the state: a waiting block becomes DirectGranted, a
      leaving block LeavingGranted ("I acquired concurrently with my own attempt to leave")\<close>
  "granted_state kSuccFlagWaiting = kSuccFlagDirectGranted"
| "granted_state kSuccFlagLeaving = kSuccFlagLeavingGranted"
| "granted_state kSuccFlagDirectGranted = kSuccFlagDirectGranted"
| "granted_state kSuccFlagLeavingGranted = kSuccFlagLeavingGranted"

definition next_flag_is_granted :: "McsRwExtendedBlock \<Rightarrow> bool" where
  [mcs_defs]: "next_flag_is_granted b =
     (flag_state (next_flags b) = kSuccFlagDirectGranted \<or>
      flag_state (next_flags b) = kSuccFlagLeavingGranted)"

definition next_flag_is_leaving_granted :: "McsRwExtendedBlock \<Rightarrow> bool" where
  [mcs_defs]: "next_flag_is_leaving_granted b =
     (flag_state (next_flags b) = kSuccFlagLeavingGranted)"

definition next_flag_has_successor :: "McsRwExtendedBlock \<Rightarrow> bool" where
  [mcs_defs]: "next_flag_has_successor b =
     (flag_successor (next_flags b) \<noteq> kSuccFlagSuccessorNone)"

definition next_flag_has_reader_successor :: "McsRwExtendedBlock \<Rightarrow> bool" where
  [mcs_defs]: "next_flag_has_reader_successor b =
     (flag_successor (next_flags b) = kSuccFlagSuccessorReader)"

definition next_flag_has_writer_successor :: "McsRwExtendedBlock \<Rightarrow> bool" where
  [mcs_defs]: "next_flag_has_writer_successor b =
     (flag_successor (next_flags b) = kSuccFlagSuccessorWriter)"

definition set_next_flag_granted :: "McsRwExtendedBlock \<Rightarrow> McsRwExtendedBlock" where
  [mcs_defs]: "set_next_flag_granted b =
     b\<lparr>next_flags := (next_flags b)\<lparr>flag_state := granted_state (flag_state (next_flags b))\<rparr>\<rparr>"

definition set_next_flag_busy_granted :: "McsRwExtendedBlock \<Rightarrow> McsRwExtendedBlock" where
  [mcs_defs]: "set_next_flag_busy_granted b =
     b\<lparr>next_flags := (next_flags b)\<lparr>flag_state := granted_state (flag_state (next_flags b)),
                                     flag_busy := True\<rparr>\<rparr>"

definition set_next_flag_busy :: "McsRwExtendedBlock \<Rightarrow> McsRwExtendedBlock" where
  [mcs_defs]: "set_next_flag_busy b = b\<lparr>next_flags := (next_flags b)\<lparr>flag_busy := True\<rparr>\<rparr>"

definition unset_next_flag_busy :: "McsRwExtendedBlock \<Rightarrow> McsRwExtendedBlock" where
  [mcs_defs]: "unset_next_flag_busy b = b\<lparr>next_flags := (next_flags b)\<lparr>flag_busy := False\<rparr>\<rparr>"

definition set_next_flag_leaving :: "McsRwExtendedBlock \<Rightarrow> McsRwExtendedBlock" where
  [mcs_defs]: "set_next_flag_leaving b =
     b\<lparr>next_flags := (next_flags b)\<lparr>flag_state := kSuccFlagLeaving\<rparr>\<rparr>"

definition set_next_flag_reader_successor :: "McsRwExtendedBlock \<Rightarrow> McsRwExtendedBlock" where
  [mcs_defs]: "set_next_flag_reader_successor b =
     b\<lparr>next_flags := (next_flags b)\<lparr>flag_successor := kSuccFlagSuccessorReader\<rparr>\<rparr>"

definition set_next_flag_writer_successor :: "McsRwExtendedBlock \<Rightarrow> McsRwExtendedBlock" where
  [mcs_defs]: "set_next_flag_writer_successor b =
     b\<lparr>next_flags := (next_flags b)\<lparr>flag_successor := kSuccFlagSuccessorWriter\<rparr>\<rparr>"

definition set_next_flag_no_successor :: "McsRwExtendedBlock \<Rightarrow> McsRwExtendedBlock" where
  [mcs_defs]: "set_next_flag_no_successor b =
     b\<lparr>next_flags := (next_flags b)\<lparr>flag_successor := kSuccFlagSuccessorNone\<rparr>\<rparr>"

definition set_flags_granted :: "McsRwExtendedBlock \<Rightarrow> McsRwExtendedBlock" where
  [mcs_defs]: "set_flags_granted b = set_next_flag_granted (set_pred_flag_granted b)"

definition make_next_flag_waiting_with_no_successor :: NextFlags where
  [mcs_defs]: "make_next_flag_waiting_with_no_successor =
     \<lparr>flag_state = kSuccFlagWaiting, flag_busy = False, flag_successor = kSuccFlagSuccessorNone\<rparr>"

definition make_next_flag_waiting_with_reader_successor :: NextFlags where
  [mcs_defs]: "make_next_flag_waiting_with_reader_successor =
     \<lparr>flag_state = kSuccFlagWaiting, flag_busy = False, flag_successor = kSuccFlagSuccessorReader\<rparr>"

definition timeout_granted ::
  "ThreadId \<times> McsBlockIndex \<Rightarrow> int \<Rightarrow> xmem \<Rightarrow> (bool \<Rightarrow> xmem \<Rightarrow> ('a, xmem) outcome)
     \<Rightarrow> ('a, xmem) outcome" where
  \<comment> \<open>Modelled from the spec: \<^verbatim>\<open>timeout_granted(timeout)\<close> spins on
      \<^verbatim>\<open>my.pred_flags == Granted\<close>. With \<^verbatim>\<open>Never\<close> it spins until granted; with \<^verbatim>\<open>Zero\<close> or a
      positive budget it gives up when the budget is spent, and without interference the
      flag does not change while it is spent.\<close>
  "timeout_granted my_block timeout s k =
     (if timeout = kTimeoutNever
      then spin_until (\<lambda>s. pred_flag_is_granted (blocks s my_block)) s (k True)
      else k (pred_flag_is_granted (blocks s my_block)) s)"

subsection \<open>Operations of \<^verbatim>\<open>McsImpl<ADAPTOR, McsRwExtendedBlock>\<close>\<close>

text \<open>
  A retry loop around a \<^verbatim>\<open>compare_exchange_weak\<close> (\<^verbatim>\<open>while (!cas(expected, desired)) {}\<close>, or
  \<^verbatim>\<open>spin_until\<close> on its result) waits until the word holds the expected value and then writes
  the desired one: it is a \<open>spin_until\<close> on the comparison followed by the write. The
  loops \<^verbatim>\<open>while (next_id == 0) { if (cas_tail_weak(my_tail, 0)) return; ... }\<close> of the release
  operations wait until a successor is linked or the tail is still the releasing block.
  Loops and \<^verbatim>\<open>goto\<close>s that can go round without waiting take fuel.
\<close>

definition init_block ::
  "ThreadId \<Rightarrow> McsBlockIndex \<Rightarrow> bool \<Rightarrow> xmem
     \<Rightarrow> (McsBlockIndex \<Rightarrow> xmem \<Rightarrow> ('a, xmem) outcome) \<Rightarrow> ('a, xmem) outcome" where
  "init_block my_id out_block_index writer s k =
     (let init = (\<lambda>block_index s.
            k block_index
              (upd_block (my_id, block_index) (if writer then init_writer_ext else init_reader_ext) s))
      in if out_block_index \<noteq> 0 then init out_block_index s
         else issue_new_block my_id s init)"

definition finish_acquire_reader_lock ::
  "ThreadId \<times> McsBlockIndex \<Rightarrow> 32 word \<Rightarrow> xmem \<Rightarrow> (ErrorCode, xmem) outcome" where
  "finish_acquire_reader_lock my_block my_tail_int s =
     (let s = upd_block my_block set_next_flag_busy_granted s in
      spin_until (\<lambda>s. next_id (blocks s my_block) \<noteq> kSuccIdSuccessorLeaving) s (\<lambda>s.
        if tail (lock s) = my_tail_int
        then Ret kErrorCodeOk (upd_block my_block unset_next_flag_busy s)
        else
          spin_until (\<lambda>s. next_id (blocks s my_block) \<noteq> 0) s (\<lambda>s.
            let next_id = next_id (blocks s my_block) in
            if next_id = kSuccIdNoSuccessor
            then Ret kErrorCodeOk (upd_block my_block unset_next_flag_busy s)
            else
              let succ_block = dereference_rw_tail_block next_id;
                  wake = (\<lambda>s.
                    spin_until (\<lambda>s. pred_id (blocks s succ_block) = my_tail_int) s (\<lambda>s.
                      let s = upd_block succ_block (set_pred_id kPredIdAcquired) s;
                          s = increment_nreaders s;
                          s = upd_block succ_block set_pred_flag_granted s;
                          s = upd_block my_block (set_next_id kSuccIdNoSuccessor) s
                      in Ret kErrorCodeOk (upd_block my_block unset_next_flag_busy s)))
              in if next_flag_is_leaving_granted (blocks s my_block)
                    \<and> \<not> next_flag_has_successor (blocks s my_block)
                 then wake s
                 else if next_flag_has_reader_successor (blocks s my_block)
                 then wake s
                 else Ret kErrorCodeOk (upd_block my_block unset_next_flag_busy s))))"

definition cancel_reader_lock_relink ::
  "ThreadId \<times> McsBlockIndex \<Rightarrow> ThreadId \<times> McsBlockIndex \<Rightarrow> 32 word \<Rightarrow> 32 word \<Rightarrow> xmem
     \<Rightarrow> (unit, xmem) outcome" where
  "cancel_reader_lock_relink pred_block my_block my_tail_int pred s =
     spin_until (\<lambda>s. next_id (blocks s my_block) \<noteq> 0) s (\<lambda>s.
       let next_id = next_id (blocks s my_block);
           succ_block = dereference_rw_tail_block next_id
       in spin_until (\<lambda>s. pred_id (blocks s succ_block) = my_tail_int) s (\<lambda>s.
            let s = upd_block succ_block (set_pred_id pred) s;
                (successor_class, successor_id) =
                  (if next_flag_has_reader_successor (blocks s my_block)
                   then (kSuccFlagSuccessorReader, next_id)
                   else if next_flag_has_writer_successor (blocks s my_block)
                   then (kSuccFlagSuccessorWriter, next_id)
                   else (kSuccFlagSuccessorNone, 0));
                expected = next_flags (blocks s pred_block);
                new_next = \<lparr>flag_state = flag_state expected, flag_busy = flag_busy expected,
                            flag_successor = successor_class\<rparr>
            in Ret () (upd_block pred_block
                         (\<lambda>b. b\<lparr>next_flags := new_next, next_id := successor_id\<rparr>) s)))"

definition cancel_reader_lock_with_writer_pred_body ::
  "(32 word \<Rightarrow> xmem \<Rightarrow> (ErrorCode, xmem) outcome) \<Rightarrow> (32 word \<Rightarrow> xmem \<Rightarrow> (ErrorCode, xmem) outcome)
     \<Rightarrow> ThreadId \<times> McsBlockIndex \<Rightarrow> 32 word \<Rightarrow> 32 word \<Rightarrow> xmem \<Rightarrow> (ErrorCode, xmem) outcome" where
  \<comment> \<open>the body of \<^verbatim>\<open>cancel_reader_lock_with_writer_pred\<close>; \<open>retry\<close> is \<^verbatim>\<open>goto retry\<close> with the
      new \<^verbatim>\<open>pred\<close>, \<open>with_reader_pred\<close> the call of \<^verbatim>\<open>cancel_reader_lock_with_reader_pred\<close>\<close>
  "cancel_reader_lock_with_writer_pred_body retry with_reader_pred my_block my_tail_int pred s =
     (let pred_block = dereference_rw_tail_block pred in
      spin_until (\<lambda>s. next_id (blocks s pred_block) = my_tail_int
                       \<and> next_flag_has_reader_successor (blocks s pred_block)) s (\<lambda>s.
        let eflags = next_flags (blocks s pred_block) in
        if flag_state eflags = kSuccFlagLeaving
        then
          let s = upd_block my_block (set_pred_id pred) s in
          spin_until (\<lambda>s. pred_id (blocks s my_block) \<noteq> pred) s (\<lambda>s.
            let pred = pred_id (blocks s my_block);
                s = upd_block my_block (set_pred_id 0) s
            in if pred = kPredIdAcquired
               then spin_until (\<lambda>s. pred_flag_is_granted (blocks s my_block)) s
                      (finish_acquire_reader_lock my_block my_tail_int)
               else if is_writer (blocks s (dereference_rw_tail_block pred))
               then retry pred s
               else with_reader_pred pred s)
        else if flag_busy eflags
        then
          let s = upd_block my_block (set_pred_id pred) s in
          spin_until (\<lambda>s. pred_flag_is_granted (blocks s my_block)) s
            (finish_acquire_reader_lock my_block my_tail_int)
        else
          let s = upd_block pred_block (set_next_id kSuccIdSuccessorLeaving) s in
          if next_id (blocks s my_block) = 0 \<and> tail (lock s) = my_tail_int
          then
            let s = set_tail pred s;
                s = upd_block pred_block set_next_flag_no_successor s;
                s = upd_block pred_block (set_next_id 0) s
            in Ret kErrorCodeLockCancelled s
          else
            then_run (cancel_reader_lock_relink pred_block my_block my_tail_int pred s)
              (\<lambda>_ s. Ret kErrorCodeLockCancelled s)))"

definition cancel_reader_lock_with_reader_pred_body ::
  "(32 word \<Rightarrow> xmem \<Rightarrow> (ErrorCode, xmem) outcome) \<Rightarrow> (32 word \<Rightarrow> xmem \<Rightarrow> (ErrorCode, xmem) outcome)
     \<Rightarrow> ThreadId \<times> McsBlockIndex \<Rightarrow> 32 word \<Rightarrow> 32 word \<Rightarrow> xmem \<Rightarrow> (ErrorCode, xmem) outcome" where
  \<comment> \<open>the body of \<^verbatim>\<open>cancel_reader_lock_with_reader_pred\<close>; \<open>retry\<close> is \<^verbatim>\<open>goto retry\<close> with the
      new \<^verbatim>\<open>pred\<close>, \<open>with_writer_pred\<close> the call of \<^verbatim>\<open>cancel_reader_lock_with_writer_pred\<close>\<close>
  "cancel_reader_lock_with_reader_pred_body retry with_writer_pred my_block my_tail_int pred s =
     (let pred_block = dereference_rw_tail_block pred in
      spin_until (\<lambda>s. next_flag_has_reader_successor (blocks s pred_block)
                       \<and> next_id (blocks s pred_block) = my_tail_int) s (\<lambda>s.
        let expected = (my_tail_int, make_next_flag_waiting_with_reader_successor);
            val = (next_id (blocks s pred_block), next_flags (blocks s pred_block))
        in if val \<noteq> expected
           then
             let pred_succ_flag = flag_state (snd val) in
             if pred_succ_flag = kSuccFlagDirectGranted \<or> pred_succ_flag = kSuccFlagLeavingGranted
             then
               let s = upd_block my_block (set_pred_id pred) s in
               timeout_granted my_block kTimeoutNever s
                 (\<lambda>_. finish_acquire_reader_lock my_block my_tail_int)
             else
               let s = upd_block my_block (set_pred_id pred) s in
               spin_until (\<lambda>s. pred_id (blocks s my_block) \<noteq> pred
                                \<or> \<not> pred_flag_is_waiting (blocks s my_block)) s (\<lambda>s.
                 let pred = pred_id (blocks s my_block);
                     s = upd_block my_block (set_pred_id 0) s
                 in if pred = kPredIdAcquired
                    then spin_until (\<lambda>s. pred_flag_is_granted (blocks s my_block)) s
                           (finish_acquire_reader_lock my_block my_tail_int)
                    else if is_writer (blocks s (dereference_rw_tail_block pred))
                    then with_writer_pred pred s
                    else retry pred s)
           else
             let s = upd_block pred_block (set_next_id kSuccIdSuccessorLeaving) s in
             if \<not> next_flag_has_successor (blocks s my_block) \<and> tail (lock s) = my_tail_int
             then
               let s = set_tail pred s;
                   s = upd_block pred_block set_next_flag_no_successor s;
                   s = upd_block pred_block (set_next_id 0) s
               in Ret kErrorCodeLockCancelled s
             else
               then_run (cancel_reader_lock_relink pred_block my_block my_tail_int pred s)
                 (\<lambda>_ s. Ret kErrorCodeLockCancelled s)))"

fun cancel_reader_lock_with_writer_pred ::
    "nat \<Rightarrow> ThreadId \<times> McsBlockIndex \<Rightarrow> 32 word \<Rightarrow> 32 word \<Rightarrow> xmem \<Rightarrow> (ErrorCode, xmem) outcome"
  and cancel_reader_lock_with_reader_pred ::
    "nat \<Rightarrow> ThreadId \<times> McsBlockIndex \<Rightarrow> 32 word \<Rightarrow> 32 word \<Rightarrow> xmem \<Rightarrow> (ErrorCode, xmem) outcome"
where
  "cancel_reader_lock_with_writer_pred 0 my_block my_tail_int pred s = OutOfFuel s"
| "cancel_reader_lock_with_writer_pred (Suc fuel) my_block my_tail_int pred s =
     cancel_reader_lock_with_writer_pred_body
       (cancel_reader_lock_with_writer_pred fuel my_block my_tail_int)
       (cancel_reader_lock_with_reader_pred fuel my_block my_tail_int)
       my_block my_tail_int pred s"
| "cancel_reader_lock_with_reader_pred 0 my_block my_tail_int pred s = OutOfFuel s"
| "cancel_reader_lock_with_reader_pred (Suc fuel) my_block my_tail_int pred s =
     cancel_reader_lock_with_reader_pred_body
       (cancel_reader_lock_with_reader_pred fuel my_block my_tail_int)
       (cancel_reader_lock_with_writer_pred fuel my_block my_tail_int)
       my_block my_tail_int pred s"

definition cancel_reader_lock :: "nat \<Rightarrow> 32 word \<Rightarrow> xmem \<Rightarrow> (ErrorCode, xmem) outcome" where
  "cancel_reader_lock fuel my_tail_int s =
     (let my_block = dereference_rw_tail_block my_tail_int;
          pred = pred_id (blocks s my_block);
          s = upd_block my_block (set_pred_id 0) s
      in if pred = kPredIdAcquired
         then spin_until (\<lambda>s. pred_flag_is_granted (blocks s my_block)) s
                (finish_acquire_reader_lock my_block my_tail_int)
         else
           let s = upd_block my_block set_next_flag_leaving s in
           spin_until (\<lambda>s. next_id (blocks s my_block) \<noteq> kSuccIdSuccessorLeaving) s (\<lambda>s.
             if is_reader_ext (blocks s (dereference_rw_tail_block pred))
             then cancel_reader_lock_with_reader_pred fuel my_block my_tail_int pred s
             else cancel_reader_lock_with_writer_pred fuel my_block my_tail_int pred s))"

definition acquire_reader_lock_check_writer_pred ::
  "nat \<Rightarrow> ThreadId \<times> McsBlockIndex \<Rightarrow> 32 word \<Rightarrow> 32 word \<Rightarrow> int \<Rightarrow> xmem
     \<Rightarrow> (ErrorCode, xmem) outcome" where
  "acquire_reader_lock_check_writer_pred fuel my_block my_tail_int pred timeout s =
     (let pred_block = dereference_rw_tail_block pred in
      spin_until (\<lambda>s. next_id (blocks s pred_block) = 0
                       \<and> \<not> next_flag_has_successor (blocks s pred_block)) s (\<lambda>s.
        let s = upd_block pred_block set_next_flag_reader_successor s;
            s = upd_block pred_block (set_next_id my_tail_int) s;
            old_pred_id = pred_id (blocks s my_block);
            s = upd_block my_block (set_pred_id pred) s;
            timeout = (if old_pred_id = kPredIdAcquired then kTimeoutNever else timeout)
        in timeout_granted my_block timeout s (\<lambda>granted s.
             if granted then finish_acquire_reader_lock my_block my_tail_int s
             else if timeout = kTimeoutZero then Ret kErrorCodeLockRequested s
             else cancel_reader_lock fuel my_tail_int s)))"

definition acquire_reader_lock_check_reader_pred_body ::
  "(32 word \<Rightarrow> xmem \<Rightarrow> (ErrorCode, xmem) outcome) \<Rightarrow> nat \<Rightarrow> ThreadId \<times> McsBlockIndex \<Rightarrow> 32 word
     \<Rightarrow> 32 word \<Rightarrow> int \<Rightarrow> xmem \<Rightarrow> (ErrorCode, xmem) outcome" where
  \<comment> \<open>the body of \<^verbatim>\<open>acquire_reader_lock_check_reader_pred\<close>; \<open>check_pred\<close> is
      \<^verbatim>\<open>goto check_pred\<close> with the new \<^verbatim>\<open>pred\<close>\<close>
  "acquire_reader_lock_check_reader_pred_body check_pred fuel my_block my_tail_int pred timeout s =
     (let pred_block = dereference_rw_tail_block pred in
      spin_until (\<lambda>s. next_id (blocks s pred_block) = 0
                       \<and> \<not> next_flag_has_successor (blocks s pred_block)) s (\<lambda>s.
        let expected = make_next_flag_waiting_with_no_successor;
            val = next_flags (blocks s pred_block)
        in if val = expected
           then
             let s = upd_block pred_block
                       (\<lambda>b. b\<lparr>next_flags := make_next_flag_waiting_with_reader_successor\<rparr>) s;
                 s = upd_block pred_block (set_next_id my_tail_int) s;
                 s = upd_block my_block (set_pred_id pred) s
             in timeout_granted my_block timeout s (\<lambda>granted s.
                  if granted then finish_acquire_reader_lock my_block my_tail_int s
                  else if timeout = kTimeoutZero then Ret kErrorCodeLockRequested s
                  else cancel_reader_lock fuel my_tail_int s)
           else if flag_state val = kSuccFlagLeaving
           then
             let s = upd_block pred_block (set_next_id my_tail_int) s;
                 s = upd_block my_block (set_pred_id pred) s
             in spin_until (\<lambda>s. pred_id (blocks s my_block) \<noteq> pred
                                 \<or> \<not> pred_flag_is_waiting (blocks s my_block)) s (\<lambda>s.
                  let pred = pred_id (blocks s my_block);
                      s = upd_block my_block (set_pred_id 0) s
                  in if pred = kPredIdAcquired
                     then spin_until (\<lambda>s. pred_flag_is_granted (blocks s my_block)) s
                            (finish_acquire_reader_lock my_block my_tail_int)
                     else if is_writer (blocks s (dereference_rw_tail_block pred))
                     then acquire_reader_lock_check_writer_pred fuel my_block my_tail_int pred
                            timeout s
                     else check_pred pred s)
           else if is_reader_ext (blocks s pred_block)
           then
             let s = upd_block pred_block (set_next_id kSuccIdNoSuccessor) s;
                 s = increment_nreaders s;
                 s = upd_block my_block set_pred_flag_granted s
             in finish_acquire_reader_lock my_block my_tail_int s
           else
             let s = upd_block my_block (set_pred_id pred) s;
                 s = upd_block pred_block (set_next_id my_tail_int) s
             in timeout_granted my_block timeout s (\<lambda>granted s.
                  if granted then finish_acquire_reader_lock my_block my_tail_int s
                  else if timeout = kTimeoutZero then Ret kErrorCodeLockRequested s
                  else cancel_reader_lock fuel my_tail_int s)))"

fun acquire_reader_lock_check_reader_pred ::
  "nat \<Rightarrow> ThreadId \<times> McsBlockIndex \<Rightarrow> 32 word \<Rightarrow> 32 word \<Rightarrow> int \<Rightarrow> xmem
     \<Rightarrow> (ErrorCode, xmem) outcome" where
  "acquire_reader_lock_check_reader_pred 0 my_block my_tail_int pred timeout s = OutOfFuel s"
| "acquire_reader_lock_check_reader_pred (Suc fuel) my_block my_tail_int pred timeout s =
     acquire_reader_lock_check_reader_pred_body
       (\<lambda>pred. acquire_reader_lock_check_reader_pred fuel my_block my_tail_int pred timeout)
       fuel my_block my_tail_int pred timeout s"

definition acquire_reader_lock ::
  "nat \<Rightarrow> ThreadId \<Rightarrow> McsBlockIndex \<Rightarrow> int \<Rightarrow> xmem \<Rightarrow> (ErrorCode \<times> McsBlockIndex, xmem) outcome" where
  \<comment> \<open>the result pairs the error code with \<^verbatim>\<open>*out_block_index\<close>\<close>
  "acquire_reader_lock fuel my_id out_block_index timeout s =
     init_block my_id out_block_index False s (\<lambda>block_index s.
       let my_block = (my_id, block_index);
           my_tail_int = to_tail_int my_id block_index;
           pred = tail (lock s);
           s = set_tail my_tail_int s
       in then_run
            (if pred = 0
             then
               let s = increment_nreaders s;
                   s = upd_block my_block set_pred_flag_granted s
               in finish_acquire_reader_lock my_block my_tail_int s
             else if is_reader_ext (blocks s (dereference_rw_tail_block pred))
             then acquire_reader_lock_check_reader_pred fuel my_block my_tail_int pred timeout s
             else acquire_reader_lock_check_writer_pred fuel my_block my_tail_int pred timeout s)
            (\<lambda>ret s. Ret (ret, block_index) s))"

definition finish_release_reader_lock :: "xmem \<Rightarrow> (unit, xmem) outcome" where
  "finish_release_reader_lock s =
     (let (old, s) = decrement_nreaders s in
      if old > 1 then Ret () s
      else
        let next_writer_id = next_writer (lock s) in
        if next_writer_id \<noteq> kNextWriterNone \<and> nreaders (lock s) = 0
        then
          let s = set_next_writer kNextWriterNone s;
              next_cur_block = cur_block s next_writer_id;
              wb = (next_writer_id, next_cur_block)
          in spin_until (\<lambda>s. pred_id (blocks s wb) = 0) s (\<lambda>s.
               let s = upd_block wb (set_pred_id kPredIdAcquired) s
               in Ret () (upd_block wb set_pred_flag_granted s))
        else Ret () s)"

definition release_reader_lock :: "ThreadId \<Rightarrow> McsBlockIndex \<Rightarrow> xmem \<Rightarrow> (unit, xmem) outcome" where
  "release_reader_lock my_id block_index s =
     (let my_tail_int = to_tail_int my_id block_index;
          my_block = (my_id, block_index);
          s = upd_block my_block set_next_flag_busy s
      in spin_until (\<lambda>s. next_id (blocks s my_block) \<noteq> kSuccIdSuccessorLeaving) s (\<lambda>s.
           spin_until (\<lambda>s. next_id (blocks s my_block) \<noteq> 0 \<or> tail (lock s) = my_tail_int) s (\<lambda>s.
             let next_id = next_id (blocks s my_block) in
             if next_id = 0 then finish_release_reader_lock (set_tail 0 s)
             else if next_id \<noteq> kSuccIdNoSuccessor
             then
               let succ_block = dereference_rw_tail_block next_id in
               if is_reader_ext (blocks s succ_block)
               then
                 let s = increment_nreaders s in
                 spin_until (\<lambda>s. pred_id (blocks s succ_block) = my_tail_int) s (\<lambda>s.
                   let s = upd_block succ_block (set_pred_id kPredIdAcquired) s;
                       s = upd_block succ_block set_pred_flag_granted s
                   in finish_release_reader_lock s)
               else
                 let next_writer_id = tail_thread next_id;
                     s = set_next_writer next_writer_id s
                 in spin_until (\<lambda>s. pred_id (blocks s succ_block) = my_tail_int) s (\<lambda>s.
                      finish_release_reader_lock (upd_block succ_block (set_pred_id 0) s))
             else finish_release_reader_lock s)))"

definition release_writer_lock :: "ThreadId \<Rightarrow> McsBlockIndex \<Rightarrow> xmem \<Rightarrow> (unit, xmem) outcome" where
  "release_writer_lock my_id block_index s =
     (let my_tail_int = to_tail_int my_id block_index;
          my_block = (my_id, block_index);
          s = upd_block my_block set_next_flag_busy s
      in spin_until (\<lambda>s. next_id (blocks s my_block) \<noteq> kSuccIdSuccessorLeaving) s (\<lambda>s.
           spin_until (\<lambda>s. next_id (blocks s my_block) \<noteq> 0 \<or> tail (lock s) = my_tail_int) s (\<lambda>s.
             let next_id = next_id (blocks s my_block) in
             if next_id = 0 then Ret () (set_tail 0 s)
             else
               let succ_block = dereference_rw_tail_block next_id in
               spin_until (\<lambda>s. pred_id (blocks s succ_block) = my_tail_int) s (\<lambda>s.
                 let s = upd_block succ_block (set_pred_id kPredIdAcquired) s;
                     s = (if is_reader_ext (blocks s succ_block) then increment_nreaders s else s)
                 in Ret () (upd_block succ_block set_pred_flag_granted s)))))"

definition cancel_writer_lock_no_pred ::
  "ThreadId \<Rightarrow> ThreadId \<times> McsBlockIndex \<Rightarrow> 32 word \<Rightarrow> xmem \<Rightarrow> (ErrorCode, xmem) outcome" where
  "cancel_writer_lock_no_pred my_id my_block my_tail_int s =
     spin_until (\<lambda>s. next_writer (lock s) \<noteq> kNextWriterNone
                      \<or> \<not> pred_flag_is_waiting (blocks s my_block)) s (\<lambda>s.
       if pred_flag_is_granted (blocks s my_block) \<or> next_writer (lock s) \<noteq> my_id
       then
         spin_until (\<lambda>s. pred_flag_is_granted (blocks s my_block)) s (\<lambda>s.
           Ret kErrorCodeOk (upd_block my_block set_next_flag_granted s))
       else
         let s = set_next_writer kNextWriterNone s in
         if next_id (blocks s my_block) = 0 \<and> tail (lock s) = my_tail_int
         then Ret kErrorCodeLockCancelled (set_tail 0 s)
         else
           spin_until (\<lambda>s. next_id (blocks s my_block) \<noteq> 0) s (\<lambda>s.
             let next_id = next_id (blocks s my_block);
                 succ_block = dereference_rw_tail_block next_id
             in if is_writer (blocks s succ_block)
                then
                  let s = set_next_writer (tail_thread next_id) s in
                  spin_until (\<lambda>s. pred_id (blocks s succ_block) = my_tail_int) s (\<lambda>s.
                    Ret kErrorCodeLockCancelled (upd_block succ_block (set_pred_id 0) s))
                else
                  spin_until (\<lambda>s. pred_id (blocks s succ_block) = my_tail_int) s (\<lambda>s.
                    let s = upd_block succ_block (set_pred_id kPredIdAcquired) s;
                        s = increment_nreaders s
                    in Ret kErrorCodeLockCancelled (upd_block succ_block set_pred_flag_granted s))))"

definition cancel_writer_lock_body ::
  "(32 word \<Rightarrow> xmem \<Rightarrow> (ErrorCode, xmem) outcome) \<Rightarrow> ThreadId \<Rightarrow> ThreadId \<times> McsBlockIndex
     \<Rightarrow> 32 word \<Rightarrow> 32 word \<Rightarrow> xmem \<Rightarrow> (ErrorCode, xmem) outcome" where
  \<comment> \<open>one round of the \<^verbatim>\<open>while (true)\<close> of \<^verbatim>\<open>cancel_writer_lock\<close> and what follows its
      \<^verbatim>\<open>break\<close>; \<open>continue\<close> is \<^verbatim>\<open>continue\<close> with the new \<^verbatim>\<open>pred\<close>\<close>
  "cancel_writer_lock_body continue my_id my_block my_tail_int pred s =
     (let pred_block = dereference_rw_tail_block pred;
          acquired = (\<lambda>s.
            spin_until (\<lambda>s. pred_flag_is_granted (blocks s my_block)) s (\<lambda>s.
              Ret kErrorCodeOk (upd_block my_block set_next_flag_granted s)))
      in spin_until (\<lambda>s. next_id (blocks s pred_block) = my_tail_int
                          \<and> next_flag_has_writer_successor (blocks s pred_block)) s (\<lambda>s.
        let eflags = next_flags (blocks s pred_block) in
        if flag_state eflags = kSuccFlagLeaving
        then
          let s = upd_block my_block (set_pred_id pred) s in
          spin_until (\<lambda>s. pred_id (blocks s my_block) \<noteq> pred) s (\<lambda>s.
            let pred = pred_id (blocks s my_block);
                s = upd_block my_block (set_pred_id 0) s
            in if pred = 0 then cancel_writer_lock_no_pred my_id my_block my_tail_int s
               else if pred = kPredIdAcquired then acquired s
               else continue pred s)
        else if flag_busy eflags
        then
          if is_writer (blocks s pred_block)
          then acquired (upd_block my_block (set_pred_id pred) s)
          else
            let s = upd_block my_block (set_pred_id pred) s;
                pred = pred_id (blocks s my_block);
                s = upd_block my_block (set_pred_id 0) s
            in if pred = 0 then cancel_writer_lock_no_pred my_id my_block my_tail_int s
               else if pred = kPredIdAcquired then acquired s
               else continue pred s
        else
          let s = upd_block pred_block (set_next_id kSuccIdSuccessorLeaving) s in
          if next_id (blocks s my_block) = 0 \<and> tail (lock s) = my_tail_int
          then
            let s = set_tail pred s;
                s = upd_block pred_block set_next_flag_no_successor s;
                s = upd_block pred_block (set_next_id 0) s
            in Ret kErrorCodeLockCancelled s
          else
            spin_until (\<lambda>s. next_id (blocks s my_block) \<noteq> 0) s (\<lambda>s.
              let new_next_id = next_id (blocks s my_block);
                  succ_block = dereference_rw_tail_block new_next_id
              in spin_until (\<lambda>s. pred_id (blocks s succ_block) = my_tail_int) s (\<lambda>s.
                   let s = upd_block succ_block (set_pred_id pred) s;
                       (successor_class, successor_id) =
                         (if next_flag_has_reader_successor (blocks s my_block)
                          then (kSuccFlagSuccessorReader, new_next_id)
                          else if next_flag_has_writer_successor (blocks s my_block)
                          then (kSuccFlagSuccessorWriter, new_next_id)
                          else (kSuccFlagSuccessorNone, 0));
                       expected = next_flags (blocks s pred_block);
                       new_next = \<lparr>flag_state = flag_state expected, flag_busy = flag_busy expected,
                                   flag_successor = successor_class\<rparr>
                   in Ret kErrorCodeLockCancelled
                        (upd_block pred_block
                           (\<lambda>b. b\<lparr>next_flags := new_next, next_id := successor_id\<rparr>) s)))))"

fun cancel_writer_lock_loop ::
  "nat \<Rightarrow> ThreadId \<Rightarrow> ThreadId \<times> McsBlockIndex \<Rightarrow> 32 word \<Rightarrow> 32 word \<Rightarrow> xmem
     \<Rightarrow> (ErrorCode, xmem) outcome" where
  "cancel_writer_lock_loop 0 my_id my_block my_tail_int pred s = OutOfFuel s"
| "cancel_writer_lock_loop (Suc fuel) my_id my_block my_tail_int pred s =
     cancel_writer_lock_body (cancel_writer_lock_loop fuel my_id my_block my_tail_int)
       my_id my_block my_tail_int pred s"

definition cancel_writer_lock :: "nat \<Rightarrow> ThreadId \<Rightarrow> 32 word \<Rightarrow> xmem \<Rightarrow> (ErrorCode, xmem) outcome" where
  "cancel_writer_lock fuel my_id my_tail_int s =
     (let my_block = dereference_rw_tail_block my_tail_int;
          pred = pred_id (blocks s my_block);
          s = upd_block my_block (set_pred_id 0) s
      in if pred = kPredIdAcquired
         then
           spin_until (\<lambda>s. pred_flag_is_granted (blocks s my_block)) s (\<lambda>s.
             Ret kErrorCodeOk (upd_block my_block set_next_flag_granted s))
         else
           let s = upd_block my_block set_next_flag_leaving s in
           spin_until (\<lambda>s. next_id (blocks s my_block) \<noteq> kSuccIdSuccessorLeaving) s (\<lambda>s.
             if pred = 0 then cancel_writer_lock_no_pred my_id my_block my_tail_int s
             else cancel_writer_lock_loop fuel my_id my_block my_tail_int pred s))"

definition acquire_writer_lock ::
  "nat \<Rightarrow> ThreadId \<Rightarrow> McsBlockIndex \<Rightarrow> int \<Rightarrow> xmem \<Rightarrow> (ErrorCode \<times> McsBlockIndex, xmem) outcome" where
  \<comment> \<open>the result pairs the error code with \<^verbatim>\<open>*out_block_index\<close>\<close>
  "acquire_writer_lock fuel my_id out_block_index timeout s =
     init_block my_id out_block_index True s (\<lambda>block_index s.
       let my_block = (my_id, block_index);
           my_tail_int = to_tail_int my_id block_index;
           pred = tail (lock s);
           s = set_tail my_tail_int s;
           wait = (\<lambda>s.
             let old_pred_id = pred_id (blocks s my_block);
                 s = upd_block my_block (set_pred_id pred) s;
                 timeout = (if old_pred_id = kPredIdAcquired then kTimeoutNever else timeout)
             in timeout_granted my_block timeout s (\<lambda>granted s.
                  if granted then Ret kErrorCodeOk (upd_block my_block set_next_flag_granted s)
                  else if timeout = kTimeoutZero then Ret kErrorCodeLockRequested s
                  else cancel_writer_lock fuel my_id my_tail_int s))
       in then_run
            (if pred = 0
             then
               let s = set_next_writer my_id s in
               if nreaders (lock s) = 0
               then
                 let old_next_writer = next_writer (lock s);
                     s = set_next_writer kNextWriterNone s
                 in if old_next_writer = my_id
                    then Ret kErrorCodeOk (upd_block my_block set_flags_granted s)
                    else wait s
               else wait s
             else
               let pred_block = dereference_rw_tail_block pred in
               spin_until (\<lambda>s. \<not> next_flag_has_successor (blocks s pred_block)
                                \<and> next_id (blocks s pred_block) = 0) s (\<lambda>s.
                 let s = upd_block pred_block set_next_flag_writer_successor s;
                     s = upd_block pred_block (set_next_id my_tail_int) s
                 in wait s))
            (\<lambda>ret s. Ret (ret, block_index) s))"

definition acquire_unconditional_rw_reader_ext ::
  "nat \<Rightarrow> ThreadId \<Rightarrow> xmem \<Rightarrow> (McsBlockIndex, xmem) outcome" where
  "acquire_unconditional_rw_reader_ext fuel my_id s =
     then_run (acquire_reader_lock fuel my_id 0 kTimeoutNever s)
       (\<lambda>(ret, block_index) s. Ret block_index s)"

definition acquire_unconditional_rw_writer_ext ::
  "nat \<Rightarrow> ThreadId \<Rightarrow> xmem \<Rightarrow> (McsBlockIndex, xmem) outcome" where
  "acquire_unconditional_rw_writer_ext fuel my_id s =
     then_run (acquire_writer_lock fuel my_id 0 kTimeoutNever s)
       (\<lambda>(ret, block_index) s. Ret block_index s)"

definition acquire_try_rw_writer_ext :: "bool \<Rightarrow> ThreadId \<Rightarrow> xmem \<Rightarrow> (McsBlockIndex, xmem) outcome" where
  "acquire_try_rw_writer_ext spurious my_id s =
     issue_new_block my_id s (\<lambda>block_index s.
       let my_block = (my_id, block_index);
           s = upd_block my_block init_writer_ext s;
           expected = McsRwLock_init;
           desired = McsRwLock_init\<lparr>tail := to_tail_int my_id block_index\<rparr>;
           s = upd_block my_block set_pred_flag_granted s;
           s = upd_block my_block set_next_flag_granted s;
           (swapped, now) = raw_atomic_compare_exchange_weak spurious (lock s) expected desired;
           s = s\<lparr>lock := now\<rparr>
       in if swapped then Ret block_index s else Ret 0 s)"

fun acquire_try_rw_reader_loop ::
  "nat \<Rightarrow> ThreadId \<Rightarrow> McsBlockIndex \<Rightarrow> xmem \<Rightarrow> (McsBlockIndex, xmem) outcome" where
  \<comment> \<open>the \<^verbatim>\<open>while (true)\<close> of the Extended \<^verbatim>\<open>acquire_try_rw_reader\<close>. A round in which
      neither \<^verbatim>\<open>if\<close> holds changes nothing and is followed by the same round, until another
      thread changes the memory: the thread waits for one of the two tests to hold.\<close>
  "acquire_try_rw_reader_loop 0 my_id block_index s = OutOfFuel s"
| "acquire_try_rw_reader_loop (Suc fuel) my_id block_index s =
     (let ll = lock s in
      if next_writer ll \<noteq> kNextWriterNone then Ret 0 s
      else
        let block = dereference_rw_tail_block (tail ll) in
        if tail ll = 0 \<or> (pred_flag_is_granted (blocks s block) \<and> is_reader_ext (blocks s block))
        then
          let ll' = ll\<lparr>nreaders := nreaders ll + 1, tail := to_tail_int my_id block_index\<rparr>;
              my_block = (my_id, block_index);
              s = upd_block my_block init_reader_ext s;
              (swapped, now) = raw_atomic_compare_exchange_weak False (lock s) ll ll';
              s = s\<lparr>lock := now\<rparr>
          in if swapped
             then
               let s = (if tail ll \<noteq> 0
                        then upd_block block (set_next_id kSuccIdNoSuccessor) s else s);
                   s = upd_block my_block set_pred_flag_granted s
               in then_run (finish_acquire_reader_lock my_block (tail ll') s)
                    (\<lambda>_ s. Ret block_index s)
             else acquire_try_rw_reader_loop fuel my_id block_index s
        else
          spin_until
            (\<lambda>s. next_writer (lock s) \<noteq> kNextWriterNone \<or> tail (lock s) = 0
                  \<or> (pred_flag_is_granted (blocks s (dereference_rw_tail_block (tail (lock s))))
                      \<and> is_reader_ext (blocks s (dereference_rw_tail_block (tail (lock s))))))
            s (\<lambda>s. acquire_try_rw_reader_loop fuel my_id block_index s))"

definition acquire_try_rw_reader_ext :: "nat \<Rightarrow> ThreadId \<Rightarrow> xmem \<Rightarrow> (McsBlockIndex, xmem) outcome" where
  "acquire_try_rw_reader_ext fuel my_id s =
     issue_new_block my_id s (acquire_try_rw_reader_loop fuel my_id)"

definition release_rw_reader_ext :: "ThreadId \<Rightarrow> McsBlockIndex \<Rightarrow> xmem \<Rightarrow> (unit, xmem) outcome" where
  "release_rw_reader_ext my_id block_index s = release_reader_lock my_id block_index s"

definition release_rw_writer_ext :: "ThreadId \<Rightarrow> McsBlockIndex \<Rightarrow> xmem \<Rightarrow> (unit, xmem) outcome" where
  "release_rw_writer_ext my_id block_index s = release_writer_lock my_id block_index s"

definition acquire_async_rw_reader_ext ::
  "nat \<Rightarrow> ThreadId \<Rightarrow> xmem \<Rightarrow> (bool \<times> McsBlockIndex, xmem) outcome" where
  "acquire_async_rw_reader_ext fuel my_id s =
     then_run (acquire_reader_lock fuel my_id 0 kTimeoutZero s)
       (\<lambda>(ret, block_index) s. Ret (ret = kErrorCodeOk, block_index) s)"


definition retry_async_rw_reader_ext ::
  "ThreadId \<Rightarrow> McsBlockIndex \<Rightarrow> xmem \<Rightarrow> (bool, xmem) outcome" where
  "retry_async_rw_reader_ext my_id block_index s =
     (let block = (my_id, block_index) in
      if pred_flag_is_granted (blocks s block)
      then
        if \<not> next_flag_is_granted (blocks s block)
        then then_run (finish_acquire_reader_lock block (to_tail_int my_id block_index) s)
               (\<lambda>_ s. Ret True s)
        else Ret True s
      else Ret False s)"


definition cancel_async_rw_reader_ext ::
  "nat \<Rightarrow> ThreadId \<Rightarrow> McsBlockIndex \<Rightarrow> xmem \<Rightarrow> (unit, xmem) outcome" where
  "cancel_async_rw_reader_ext fuel my_id block_index s =
     then_run (retry_async_rw_reader_ext my_id block_index s) (\<lambda>retried s.
       if \<not> retried
       then
         let my_tail_int = to_tail_int my_id block_index in
         then_run (cancel_reader_lock fuel my_tail_int s) (\<lambda>ret s.
           if ret = kErrorCodeOk then release_reader_lock my_id block_index s else Ret () s)
       else release_reader_lock my_id block_index s)"


subsection \<open>Memories of the scenarios\<close>

definition fresh_smem :: smem where
  "fresh_smem =
     fresh_mem \<lparr>self = \<lparr>class_reader = False, blocked = False, finalized = False,
                          successor_class = kSuccessorClassNone\<rparr>,
                successor_thread_id = 0, successor_block_index = 0\<rparr>"

definition fresh_xmem :: xmem where
  "fresh_xmem =
     fresh_mem \<lparr>pred_flags = kPredFlagWaiting, pred_id = 0,
                next_flags = \<lparr>flag_state = kSuccFlagWaiting, flag_busy = False,
                              flag_successor = kSuccFlagSuccessorNone\<rparr>,
                next_id = 0, role_reader = True\<rparr>"

definition granted_reader :: McsRwExtendedBlock where
  \<comment> \<open>the block of a reader that holds the lock and has no successor\<close>
  "granted_reader =
     \<lparr>pred_flags = kPredFlagGranted, pred_id = 0,
      next_flags = \<lparr>flag_state = kSuccFlagDirectGranted, flag_busy = False,
                    flag_successor = kSuccFlagSuccessorNone\<rparr>,
      next_id = 0, role_reader = True\<rparr>"

definition granted_reader_simple :: McsRwSimpleBlock where
  \<comment> \<open>the block of a Simple reader that holds the lock and has no successor\<close>
  "granted_reader_simple =
     \<lparr>self = \<lparr>class_reader = True, blocked = False, finalized = True,
               successor_class = kSuccessorClassNone\<rparr>,
      successor_thread_id = 0, successor_block_index = 0\<rparr>"

definition granted_writer_simple :: McsRwSimpleBlock where
  \<comment> \<open>the block of a Simple writer that holds the lock and has no successor\<close>
  "granted_writer_simple =
     \<lparr>self = \<lparr>class_reader = False, blocked = False, finalized = False,
               successor_class = kSuccessorClassNone\<rparr>,
      successor_thread_id = 0, successor_block_index = 0\<rparr>"

definition granted_writer :: McsRwExtendedBlock where
  \<comment> \<open>the block of a writer that holds the lock and has no successor\<close>
  "granted_writer =
     \<lparr>pred_flags = kPredFlagGranted, pred_id = 0,
      next_flags = \<lparr>flag_state = kSuccFlagDirectGranted, flag_busy = False,
                    flag_successor = kSuccFlagSuccessorNone\<rparr>,
      next_id = 0, role_reader = False\<rparr>"

definition waiting_writer :: "32 word \<Rightarrow> McsRwExtendedBlock" where
  \<comment> \<open>the block of a writer that waits behind the block \<open>pred\<close>\<close>
  "waiting_writer pred =
     \<lparr>pred_flags = kPredFlagWaiting, pred_id = pred,
      next_flags = \<lparr>flag_state = kSuccFlagWaiting, flag_busy = False,
                    flag_successor = kSuccFlagSuccessorNone\<rparr>,
      next_id = 0, role_reader = False\<rparr>"





section \<open>The WW lock\<close>

text \<open>
  \<^verbatim>\<open>McsWwImpl\<close>. The lock is one 32-bit word \<^verbatim>\<open>data_\<close>; a block holds the tail word of its
  successor (0 for none); every thread has one waiting flag. The claims about the WW lock
  are about what happens between the atomic operations of \<^verbatim>\<open>acquire_unconditional\<close>, so
  here a thread is a program counter with its local variables, and one step is one access
  to the shared memory.
\<close>

definition kMcsGuestId :: "32 word" where
  \<comment> \<open>Modelled from the spec: the guest sentinel is the all-ones 32-bit pattern.\<close>
  "kMcsGuestId = 0xFFFFFFFF"

record McsBlock =
  successor :: "32 word"

record wmem =
  data :: "32 word"
  ww_blocks :: "ThreadId \<times> McsBlockIndex \<Rightarrow> McsBlock"
  ww_cur_block :: "ThreadId \<Rightarrow> McsBlockIndex"
  mcs_waiting :: "ThreadId \<Rightarrow> bool"

definition has_successor :: "McsBlock \<Rightarrow> bool" where
  "has_successor b = (successor b \<noteq> 0)"

datatype ww_pc =
    Idle \<comment> \<open>in no call and not holding the lock\<close>
  | AcquireCheckGuest \<comment> \<open>\<^verbatim>\<open>if (*address == kMcsGuestId)\<close>\<close>
  | AcquireSpinGuest \<comment> \<open>\<^verbatim>\<open>spin_until(load(address) != kMcsGuestId)\<close>\<close>
  | AcquireExchange \<comment> \<open>\<^verbatim>\<open>pred_int = raw_atomic_exchange(address, group_tail)\<close>\<close>
  | AcquireReturnGuest \<comment> \<open>\<^verbatim>\<open>group_tail = raw_atomic_exchange(address, kMcsGuestId)\<close>\<close>
  | AcquireLinkPred \<comment> \<open>\<^verbatim>\<open>pred_block->set_successor_release(id, block_index)\<close>\<close>
  | AcquireSpinWaiting \<comment> \<open>\<^verbatim>\<open>spin_until(!me_waiting)\<close>\<close>
  | Holding \<comment> \<open>\<^verbatim>\<open>acquire_unconditional\<close> has returned \<^verbatim>\<open>block_index\<close>\<close>
  | ReleaseCheckSuccessor \<comment> \<open>\<^verbatim>\<open>if (!block->has_successor())\<close>\<close>
  | ReleaseCas \<comment> \<open>\<^verbatim>\<open>raw_atomic_compare_exchange_strong(address, &expected, 0)\<close>\<close>
  | ReleaseSpinSuccessor \<comment> \<open>\<^verbatim>\<open>spin_until(block->has_successor_atomic())\<close>\<close>
  | ReleaseWake \<comment> \<open>\<^verbatim>\<open>other_waiting(successor_id)->store(false)\<close>\<close>
  | NoBlocks \<comment> \<open>the adaptor could not issue a block\<close>

record ww_thread =
  pc :: ww_pc
  local_block_index :: McsBlockIndex
  local_group_tail :: "32 word"
  local_pred_int :: "32 word"

definition ww_idle :: ww_thread where
  "ww_idle = \<lparr>pc = Idle, local_block_index = 0, local_group_tail = 0, local_pred_int = 0\<rparr>"

definition ww_step :: "ThreadId \<Rightarrow> ww_thread \<times> wmem \<Rightarrow> ww_thread \<times> wmem" where
  \<comment> \<open>one step of thread \<open>my_id\<close>. From \<open>Idle\<close> it calls \<^verbatim>\<open>acquire_unconditional\<close> (the block
      is issued and cleared and \<^verbatim>\<open>me_waiting\<close> set: nobody else reads them yet); from
      \<open>Holding\<close> it calls \<^verbatim>\<open>release\<close> with the block index it holds.\<close>
  "ww_step my_id = (\<lambda>(l, s).
     let my_block = (my_id, local_block_index l);
         myself = to_tail_int my_id (local_block_index l)
     in case pc l of
       Idle \<Rightarrow>
         if ww_cur_block s my_id < 0xFFFF
         then
           let block_index = ww_cur_block s my_id + 1;
               s = s\<lparr>ww_cur_block := (ww_cur_block s)(my_id := block_index),
                      ww_blocks := (ww_blocks s)((my_id, block_index) := \<lparr>successor = 0\<rparr>),
                      mcs_waiting := (mcs_waiting s)(my_id := True)\<rparr>;
               desired = to_tail_int my_id block_index
           in (\<lparr>pc = AcquireCheckGuest, local_block_index = block_index,
                 local_group_tail = desired, local_pred_int = 0\<rparr>, s)
         else (l\<lparr>pc := NoBlocks\<rparr>, s)
     | AcquireCheckGuest \<Rightarrow>
         if data s = kMcsGuestId then (l\<lparr>pc := AcquireSpinGuest\<rparr>, s)
         else (l\<lparr>pc := AcquireExchange\<rparr>, s)
     | AcquireSpinGuest \<Rightarrow>
         if data s \<noteq> kMcsGuestId then (l\<lparr>pc := AcquireExchange\<rparr>, s) else (l, s)
     | AcquireExchange \<Rightarrow>
         let pred_int = data s;
             s = s\<lparr>data := local_group_tail l\<rparr>;
             l = l\<lparr>local_pred_int := pred_int\<rparr>
         in if pred_int = 0
            then (l\<lparr>pc := Holding\<rparr>, s\<lparr>mcs_waiting := (mcs_waiting s)(my_id := False)\<rparr>)
            else if pred_int = kMcsGuestId then (l\<lparr>pc := AcquireReturnGuest\<rparr>, s)
            else (l\<lparr>pc := AcquireLinkPred\<rparr>, s)
     | AcquireReturnGuest \<Rightarrow>
         let group_tail = data s;
             s = s\<lparr>data := kMcsGuestId\<rparr>
         in (l\<lparr>pc := AcquireCheckGuest, local_group_tail := group_tail\<rparr>, s)
     | AcquireLinkPred \<Rightarrow>
         let pred_block = (tail_thread (local_pred_int l), tail_block (local_pred_int l));
             s = s\<lparr>ww_blocks := (ww_blocks s)(pred_block := \<lparr>successor = myself\<rparr>)\<rparr>
         in (l\<lparr>pc := AcquireSpinWaiting\<rparr>, s)
     | AcquireSpinWaiting \<Rightarrow>
         if \<not> mcs_waiting s my_id then (l\<lparr>pc := Holding\<rparr>, s) else (l, s)
     | Holding \<Rightarrow> (l\<lparr>pc := ReleaseCheckSuccessor\<rparr>, s)
     | ReleaseCheckSuccessor \<Rightarrow>
         if \<not> has_successor (ww_blocks s my_block) then (l\<lparr>pc := ReleaseCas\<rparr>, s)
         else (l\<lparr>pc := ReleaseWake\<rparr>, s)
     | ReleaseCas \<Rightarrow>
         if data s = myself then (l\<lparr>pc := Idle\<rparr>, s\<lparr>data := 0\<rparr>)
         else (l\<lparr>pc := ReleaseSpinSuccessor\<rparr>, s)
     | ReleaseSpinSuccessor \<Rightarrow>
         if has_successor (ww_blocks s my_block) then (l\<lparr>pc := ReleaseWake\<rparr>, s) else (l, s)
     | ReleaseWake \<Rightarrow>
         let successor_id = tail_thread (successor (ww_blocks s my_block))
         in (l\<lparr>pc := Idle\<rparr>, s\<lparr>mcs_waiting := (mcs_waiting s)(successor_id := False)\<rparr>)
     | NoBlocks \<Rightarrow> (l, s))"

fun run_until ::
  "(ww_pc \<Rightarrow> bool) \<Rightarrow> nat \<Rightarrow> ThreadId \<Rightarrow> ww_thread \<times> wmem \<Rightarrow> (ww_thread \<times> wmem) option" where
  \<comment> \<open>the thread alone, step after step, until its program counter is as asked\<close>
  "run_until finished 0 my_id c = None"
| "run_until finished (Suc fuel) my_id c =
     (let c' = ww_step my_id c in
      if finished (pc (fst c')) then Some c' else run_until finished fuel my_id c')"

definition acquire_unconditional ::
  "nat \<Rightarrow> ThreadId \<Rightarrow> wmem \<Rightarrow> (McsBlockIndex \<times> wmem) option" where
  \<comment> \<open>the whole call, by a thread that nobody disturbs; \<open>None\<close>: no return within the fuel\<close>
  "acquire_unconditional fuel my_id s =
     map_option (\<lambda>(l, s). (local_block_index l, s))
       (run_until (\<lambda>p. p = Holding) fuel my_id (ww_idle, s))"

definition release :: "nat \<Rightarrow> ThreadId \<Rightarrow> McsBlockIndex \<Rightarrow> wmem \<Rightarrow> wmem option" where
  "release fuel my_id block_index s =
     map_option snd
       (run_until (\<lambda>p. p = Idle) fuel my_id
          (ww_idle\<lparr>pc := Holding, local_block_index := block_index\<rparr>, s))"








definition ww_fresh :: wmem where
  "ww_fresh =
     \<lparr>data = 0, ww_blocks = (\<lambda>_. \<lparr>successor = 0\<rparr>), ww_cur_block = (\<lambda>_. 0),
      mcs_waiting = (\<lambda>_. False)\<rparr>"


section \<open>Basic facts\<close>

lemma tail_thread_to_tail_int [simp]: "tail_thread (to_tail_int t i) = t"
  unfolding tail_thread_def to_tail_int_def
  by (rule bit_word_eqI) (auto simp: bit_simps dest: bit_imp_le_length)

lemma low_half_mask: "(0xFFFF::32 word) = mask 16"
  by (simp add: mask_eq_exp_minus_1)

lemma tail_block_to_tail_int [simp]: "tail_block (to_tail_int t i) = i"
  unfolding tail_block_def to_tail_int_def low_half_mask
  by (rule bit_word_eqI) (auto simp: bit_simps)

lemma to_tail_int_inj [simp]: "to_tail_int t i = to_tail_int t' i' \<longleftrightarrow> t = t' \<and> i = i'"
  by (metis tail_thread_to_tail_int tail_block_to_tail_int)

lemma to_tail_int_0: "to_tail_int 0 0 = 0"
  by (simp add: to_tail_int_def)

lemma to_tail_int_eq_0 [simp]: "to_tail_int t i = 0 \<longleftrightarrow> t = 0 \<and> i = 0"
  using to_tail_int_inj [of t i 0 0] by (simp add: to_tail_int_0 del: to_tail_int_inj)

lemma deref_to_tail_int [simp]: "dereference_rw_tail_block (to_tail_int t i) = (t, i)"
  by (simp add: dereference_rw_tail_block_def)

lemma issued_block_nonzero: "(c::16 word) < 0xFFFF \<Longrightarrow> c + 1 \<noteq> 0"
proof
  assume a: "c < 0xFFFF" and b: "c + 1 = 0"
  from b have "c = - 1" by (simp add: eq_neg_iff_add_eq_0)
  with a show False by simp
qed

lemma upd_block_simps [simp]:
  "lock (upd_block p f s) = lock s"
  "cur_block (upd_block p f s) = cur_block s"
  "blocks (upd_block p f s) = (blocks s)(p := f (blocks s p))"
  by (simp_all add: upd_block_def)

lemma lock_op_simps [simp]:
  "blocks (increment_nreaders s) = blocks s"
  "cur_block (increment_nreaders s) = cur_block s"
  "lock (increment_nreaders s) = (lock s)\<lparr>nreaders := nreaders (lock s) + 1\<rparr>"
  "blocks (set_tail t s) = blocks s"
  "cur_block (set_tail t s) = cur_block s"
  "lock (set_tail t s) = (lock s)\<lparr>tail := t\<rparr>"
  "blocks (set_next_writer w s) = blocks s"
  "cur_block (set_next_writer w s) = cur_block s"
  "lock (set_next_writer w s) = (lock s)\<lparr>next_writer := w\<rparr>"
  by (simp_all add: mcs_defs)

section \<open>The Simple lock has no cancellation\<close>

text \<open>
  Claim C9. In the Simple RW lock \<^verbatim>\<open>cancel_async_rw_reader\<close> and \<^verbatim>\<open>cancel_async_rw_writer\<close>
  are no-ops: for every memory (lock word, blocks, block counters), every thread and every
  block index they return at once and leave the memory as it is.
\<close>

theorem simple_cancel_async_is_noop:
  "cancel_async_rw_reader_simple my_id block_index s = Ret () s \<and>
   cancel_async_rw_writer_simple my_id block_index s = Ret () s"
  by (simp add: cancel_async_rw_reader_simple_def cancel_async_rw_writer_simple_def)

section \<open>The writer try-acquire is one compare-and-swap of the whole lock word\<close>

text \<open>
  Claim C3. In both the Simple and the Extended lock \<^verbatim>\<open>acquire_try_rw_writer\<close> returns a
  non-zero block index exactly when its single 64-bit compare-and-swap succeeds, which is
  exactly when the lock word is completely empty (tail 0, no next writer, no readers) and
  the weak compare-and-swap does not fail spuriously; the lock word then becomes the
  caller's tail word with no next writer and no readers. When the compare-and-swap fails
  the result is 0 and the lock word is unchanged. The thread must have a block left.
\<close>

theorem try_rw_writer_succeeds_iff_cas:
  assumes "cur_block s my_id < 0xFFFF" and "cur_block x my_id < 0xFFFF"
  shows "(\<exists>r s'. acquire_try_rw_writer_simple spurious my_id s = Ret r s'
            \<and> (r \<noteq> 0) = fst (raw_atomic_compare_exchange_weak spurious (lock s) McsRwLock_init
                   (McsRwLock_init\<lparr>tail := to_tail_int my_id (cur_block s my_id + 1)\<rparr>))
            \<and> (r \<noteq> 0) = (lock s = \<lparr>tail = 0, next_writer = 0, nreaders = 0\<rparr> \<and> \<not> spurious)
            \<and> (r \<noteq> 0) = (r = cur_block s my_id + 1)
            \<and> lock s' = (if r \<noteq> 0 then \<lparr>tail = to_tail_int my_id r, next_writer = 0, nreaders = 0\<rparr>
                          else lock s))
       \<and> (\<exists>r x'. acquire_try_rw_writer_ext spurious my_id x = Ret r x'
            \<and> (r \<noteq> 0) = fst (raw_atomic_compare_exchange_weak spurious (lock x) McsRwLock_init
                   (McsRwLock_init\<lparr>tail := to_tail_int my_id (cur_block x my_id + 1)\<rparr>))
            \<and> (r \<noteq> 0) = (lock x = \<lparr>tail = 0, next_writer = 0, nreaders = 0\<rparr> \<and> \<not> spurious)
            \<and> (r \<noteq> 0) = (r = cur_block x my_id + 1)
            \<and> lock x' = (if r \<noteq> 0 then \<lparr>tail = to_tail_int my_id r, next_writer = 0, nreaders = 0\<rparr>
                          else lock x))"
proof
  show "\<exists>r s'. acquire_try_rw_writer_simple spurious my_id s = Ret r s'
            \<and> (r \<noteq> 0) = fst (raw_atomic_compare_exchange_weak spurious (lock s) McsRwLock_init
                   (McsRwLock_init\<lparr>tail := to_tail_int my_id (cur_block s my_id + 1)\<rparr>))
            \<and> (r \<noteq> 0) = (lock s = \<lparr>tail = 0, next_writer = 0, nreaders = 0\<rparr> \<and> \<not> spurious)
            \<and> (r \<noteq> 0) = (r = cur_block s my_id + 1)
            \<and> lock s' = (if r \<noteq> 0 then \<lparr>tail = to_tail_int my_id r, next_writer = 0, nreaders = 0\<rparr>
                          else lock s)"
    using assms(1) issued_block_nonzero [OF assms(1)]
    by (simp add: acquire_try_rw_writer_simple_def issue_new_block_def
        retry_async_rw_writer_simple_def raw_atomic_compare_exchange_weak_def
        Let_def McsRwLock_init_def kNextWriterNone_def)
  show "\<exists>r x'. acquire_try_rw_writer_ext spurious my_id x = Ret r x'
            \<and> (r \<noteq> 0) = fst (raw_atomic_compare_exchange_weak spurious (lock x) McsRwLock_init
                   (McsRwLock_init\<lparr>tail := to_tail_int my_id (cur_block x my_id + 1)\<rparr>))
            \<and> (r \<noteq> 0) = (lock x = \<lparr>tail = 0, next_writer = 0, nreaders = 0\<rparr> \<and> \<not> spurious)
            \<and> (r \<noteq> 0) = (r = cur_block x my_id + 1)
            \<and> lock x' = (if r \<noteq> 0 then \<lparr>tail = to_tail_int my_id r, next_writer = 0, nreaders = 0\<rparr>
                          else lock x)"
    using assms(2) issued_block_nonzero [OF assms(2)]
    by (simp add: acquire_try_rw_writer_ext_def issue_new_block_def
        raw_atomic_compare_exchange_weak_def
        Let_def McsRwLock_init_def kNextWriterNone_def)
qed

theorem try_rw_writer_succeeds_iff_cas_witness:
  "cur_block fresh_smem 1 < 0xFFFF \<and> cur_block fresh_xmem 1 < 0xFFFF
   \<and> (\<exists>s'. acquire_try_rw_writer_simple False 1 fresh_smem = Ret 1 s'
         \<and> lock s' = \<lparr>tail = to_tail_int 1 1, next_writer = 0, nreaders = 0\<rparr>)
   \<and> (\<exists>x'. acquire_try_rw_writer_ext False 1 fresh_xmem = Ret 1 x'
         \<and> lock x' = \<lparr>tail = to_tail_int 1 1, next_writer = 0, nreaders = 0\<rparr>)"
proof -
  have c: "cur_block fresh_smem 1 < 0xFFFF" "cur_block fresh_xmem 1 < 0xFFFF"
    by (simp_all add: fresh_smem_def fresh_xmem_def fresh_mem_def)
  from try_rw_writer_succeeds_iff_cas [OF c, of False] c show ?thesis
    by (auto simp: fresh_smem_def fresh_xmem_def fresh_mem_def McsRwLock_init_def
        kNextWriterNone_def split: if_splits)
qed

section \<open>The try, async and retry entry points of the Simple lock\<close>

lemma retry_async_rw_reader_simple_returns:
  "\<exists>ok s'. retry_async_rw_reader_simple spurious my_id block_index s = Ret ok s'"
  by (auto simp: retry_async_rw_reader_simple_def Let_def raw_atomic_compare_exchange_weak_def
      finalize_acquire_reader_simple_def mcs_defs spin_until_def)

lemma retry_async_rw_writer_simple_returns:
  "\<exists>ok s'. retry_async_rw_writer_simple spurious my_id block_index s = Ret ok s'"
  by (auto simp: retry_async_rw_writer_simple_def Let_def raw_atomic_compare_exchange_weak_def)

text \<open>
  Claim C10. In the Simple lock, for a thread that has a block left, let \<open>block_index\<close> be
  the block it is issued next. \<^verbatim>\<open>retry_async_rw_writer\<close> on that fresh block returns some
  \<open>ok\<close>; \<^verbatim>\<open>acquire_try_rw_writer\<close> returns \<open>block_index\<close>, which is not 0, if \<open>ok\<close> and 0
  otherwise, and \<^verbatim>\<open>acquire_async_rw_writer\<close> returns \<open>granted = ok\<close> with \<open>block_index\<close>, all
  three leaving the same memory. The same holds of the three reader entry points.
\<close>

theorem simple_entry_points_coincide:
  assumes "cur_block s my_id < 0xFFFF"
  defines "block_index \<equiv> cur_block s my_id + 1"
  defines "s1 \<equiv> s\<lparr>cur_block := (cur_block s)(my_id := block_index)\<rparr>"
  shows "(\<exists>ok s'. retry_async_rw_writer_simple spurious my_id block_index s1 = Ret ok s'
            \<and> acquire_try_rw_writer_simple spurious my_id s = Ret (if ok then block_index else 0) s'
            \<and> acquire_async_rw_writer_simple spurious my_id s = Ret (ok, block_index) s')
       \<and> (\<exists>ok s'. retry_async_rw_reader_simple spurious my_id block_index s1 = Ret ok s'
            \<and> acquire_try_rw_reader_simple spurious my_id s = Ret (if ok then block_index else 0) s'
            \<and> acquire_async_rw_reader_simple spurious my_id s = Ret (ok, block_index) s')
       \<and> block_index \<noteq> 0"
proof -
  obtain okw sw where w: "retry_async_rw_writer_simple spurious my_id block_index s1 = Ret okw sw"
    using retry_async_rw_writer_simple_returns by blast
  obtain okr sr where r: "retry_async_rw_reader_simple spurious my_id block_index s1 = Ret okr sr"
    using retry_async_rw_reader_simple_returns by blast
  have "block_index \<noteq> 0"
    using issued_block_nonzero [OF assms(1)] by (simp add: block_index_def)
  moreover have "acquire_try_rw_writer_simple spurious my_id s = Ret (if okw then block_index else 0) sw"
    "acquire_async_rw_writer_simple spurious my_id s = Ret (okw, block_index) sw"
    using assms(1) w
    by (simp_all add: acquire_try_rw_writer_simple_def acquire_async_rw_writer_simple_def
        issue_new_block_def block_index_def s1_def)
  moreover have "acquire_try_rw_reader_simple spurious my_id s = Ret (if okr then block_index else 0) sr"
    "acquire_async_rw_reader_simple spurious my_id s = Ret (okr, block_index) sr"
    using assms(1) r
    by (simp_all add: acquire_try_rw_reader_simple_def acquire_async_rw_reader_simple_def
        issue_new_block_def block_index_def s1_def)
  ultimately show ?thesis using w r by simp
qed

theorem simple_entry_points_coincide_witness:
  "cur_block fresh_smem 1 < 0xFFFF
   \<and> (\<exists>s'. retry_async_rw_writer_simple False 1 1
               (fresh_smem\<lparr>cur_block := (cur_block fresh_smem)(1 := 1)\<rparr>) = Ret True s'
        \<and> acquire_try_rw_writer_simple False 1 fresh_smem = Ret 1 s'
        \<and> acquire_async_rw_writer_simple False 1 fresh_smem = Ret (True, 1) s')
   \<and> (\<exists>s'. retry_async_rw_reader_simple False 1 1
               (fresh_smem\<lparr>cur_block := (cur_block fresh_smem)(1 := 1)\<rparr>) = Ret True s'
        \<and> acquire_try_rw_reader_simple False 1 fresh_smem = Ret 1 s'
        \<and> acquire_async_rw_reader_simple False 1 fresh_smem = Ret (True, 1) s')"
proof -
  have c: "cur_block fresh_smem 1 < 0xFFFF" by (simp add: fresh_smem_def fresh_mem_def)
  have w: "\<exists>s'. retry_async_rw_writer_simple False 1 1
                  (fresh_smem\<lparr>cur_block := (cur_block fresh_smem)(1 := 1)\<rparr>) = Ret True s'"
    by (simp add: retry_async_rw_writer_simple_def Let_def raw_atomic_compare_exchange_weak_def
        fresh_smem_def fresh_mem_def)
  have r: "\<exists>s'. retry_async_rw_reader_simple False 1 1
                  (fresh_smem\<lparr>cur_block := (cur_block fresh_smem)(1 := 1)\<rparr>) = Ret True s'"
    by (simp add: retry_async_rw_reader_simple_def Let_def raw_atomic_compare_exchange_weak_def
        finalize_acquire_reader_simple_def mcs_defs fresh_smem_def fresh_mem_def)
  from simple_entry_points_coincide [OF c, of False] w r c show ?thesis
    by (auto simp: fresh_smem_def fresh_mem_def)
qed

section \<open>Readers of the Extended lock join a granted reader\<close>

lemmas ext_reader_exec =
  acquire_reader_lock_def init_block_def issue_new_block_def
  spin_until_def finish_acquire_reader_lock_def Let_def
  acquire_reader_lock_check_reader_pred_body_def
  kSuccIdSuccessorLeaving_def kSuccIdNoSuccessor_def kPredIdAcquired_def

lemma granted_reader_simps [simp]:
  "pred_flags granted_reader = kPredFlagGranted"
  "role_reader granted_reader" "next_id granted_reader = 0"
  "next_flags granted_reader =
     \<lparr>flag_state = kSuccFlagDirectGranted, flag_busy = False,
      flag_successor = kSuccFlagSuccessorNone\<rparr>"
  by (simp_all add: granted_reader_def)

lemma ext_first_reader:
  assumes "tail (lock s) = 0" "cur_block s t < 0xFFFF"
  shows "\<exists>s'. acquire_reader_lock fuel t 0 timeout s = Ret (kErrorCodeOk, cur_block s t + 1) s'
     \<and> lock s' = (lock s)\<lparr>tail := to_tail_int t (cur_block s t + 1),
                            nreaders := nreaders (lock s) + 1\<rparr>
     \<and> blocks s' = (blocks s)((t, cur_block s t + 1) := granted_reader)
     \<and> cur_block s' = (cur_block s)(t := cur_block s t + 1)"
  using assms
  by (simp add: ext_reader_exec mcs_defs granted_reader_def)

lemma ext_reader_joins_granted_reader:
  assumes "tail (lock s) = to_tail_int p pb" "(p, pb) \<noteq> (0, 0)" "cur_block s t < 0xFFFF"
    and "(p, pb) \<noteq> (t, cur_block s t + 1)"
    and "role_reader (blocks s (p, pb))" "next_id (blocks s (p, pb)) = 0"
    and "next_flags (blocks s (p, pb)) =
           \<lparr>flag_state = kSuccFlagDirectGranted, flag_busy = False,
            flag_successor = kSuccFlagSuccessorNone\<rparr>"
  shows "\<exists>s'. acquire_reader_lock (Suc fuel) t 0 timeout s = Ret (kErrorCodeOk, cur_block s t + 1) s'
     \<and> lock s' = (lock s)\<lparr>tail := to_tail_int t (cur_block s t + 1),
                            nreaders := nreaders (lock s) + 1\<rparr>
     \<and> blocks s' = (blocks s)((p, pb) := (blocks s (p, pb))\<lparr>next_id := kSuccIdNoSuccessor\<rparr>,
                               (t, cur_block s t + 1) := granted_reader)
     \<and> cur_block s' = (cur_block s)(t := cur_block s t + 1)"
  using assms
  by (auto simp add: ext_reader_exec mcs_defs granted_reader_def)

text \<open>
  Claim C8. From an empty Extended lock, three calls of \<^verbatim>\<open>acquire_unconditional_rw_reader\<close>
  one after the other by three different threads, each with a block left, all return
  (with any fuel but 0): then \<^verbatim>\<open>nreaders\<close> is 3, the \<^verbatim>\<open>pred_flags\<close> of all three blocks are
  Granted, and the tail of the lock is the third thread's tail word.
\<close>

theorem three_reader_fan_in:
  assumes "lock s = McsRwLock_init"
    and "t1 \<noteq> t2" "t1 \<noteq> t3" "t2 \<noteq> t3"
    and "cur_block s t1 < 0xFFFF" "cur_block s t2 < 0xFFFF" "cur_block s t3 < 0xFFFF"
  shows "\<exists>s1 s2 s3.
      acquire_unconditional_rw_reader_ext (Suc fuel) t1 s = Ret (cur_block s t1 + 1) s1
    \<and> acquire_unconditional_rw_reader_ext (Suc fuel) t2 s1 = Ret (cur_block s t2 + 1) s2
    \<and> acquire_unconditional_rw_reader_ext (Suc fuel) t3 s2 = Ret (cur_block s t3 + 1) s3
    \<and> nreaders (lock s3) = 3
    \<and> pred_flags (blocks s3 (t1, cur_block s t1 + 1)) = kPredFlagGranted
    \<and> pred_flags (blocks s3 (t2, cur_block s t2 + 1)) = kPredFlagGranted
    \<and> pred_flags (blocks s3 (t3, cur_block s t3 + 1)) = kPredFlagGranted
    \<and> tail (lock s3) = to_tail_int t3 (cur_block s t3 + 1)"
proof -
  let ?b1 = "cur_block s t1 + 1" and ?b2 = "cur_block s t2 + 1" and ?b3 = "cur_block s t3 + 1"
  have nz: "?b1 \<noteq> 0" "?b2 \<noteq> 0" "?b3 \<noteq> 0"
    using assms(5-7) by (simp_all add: issued_block_nonzero)
  obtain s1 where 1: "acquire_reader_lock (Suc fuel) t1 0 kTimeoutNever s = Ret (kErrorCodeOk, ?b1) s1"
    and l1: "lock s1 = (lock s)\<lparr>tail := to_tail_int t1 ?b1, nreaders := nreaders (lock s) + 1\<rparr>"
    and b1: "blocks s1 = (blocks s)((t1, ?b1) := granted_reader)"
    and c1: "cur_block s1 = (cur_block s)(t1 := ?b1)"
    using ext_first_reader [of s t1 "Suc fuel" kTimeoutNever] assms(1,5)
    by (auto simp: McsRwLock_init_def)
  obtain s2 where 2: "acquire_reader_lock (Suc fuel) t2 0 kTimeoutNever s1 = Ret (kErrorCodeOk, ?b2) s2"
    and l2: "lock s2 = (lock s1)\<lparr>tail := to_tail_int t2 ?b2, nreaders := nreaders (lock s1) + 1\<rparr>"
    and b2: "blocks s2 = (blocks s1)((t1, ?b1) := (blocks s1 (t1, ?b1))\<lparr>next_id := kSuccIdNoSuccessor\<rparr>,
                               (t2, ?b2) := granted_reader)"
    and c2: "cur_block s2 = (cur_block s1)(t2 := ?b2)"
    using ext_reader_joins_granted_reader [of s1 t1 ?b1 t2 fuel kTimeoutNever] assms(2,6) nz l1 b1 c1
    by auto
  obtain s3 where 3: "acquire_reader_lock (Suc fuel) t3 0 kTimeoutNever s2 = Ret (kErrorCodeOk, ?b3) s3"
    and l3: "lock s3 = (lock s2)\<lparr>tail := to_tail_int t3 ?b3, nreaders := nreaders (lock s2) + 1\<rparr>"
    and b3: "blocks s3 = (blocks s2)((t2, ?b2) := (blocks s2 (t2, ?b2))\<lparr>next_id := kSuccIdNoSuccessor\<rparr>,
                               (t3, ?b3) := granted_reader)"
    and c3: "cur_block s3 = (cur_block s2)(t3 := ?b3)"
    using ext_reader_joins_granted_reader [of s2 t2 ?b2 t3 fuel kTimeoutNever] assms(2-4,7) nz l2 b2 c2 c1
    by auto
  have "nreaders (lock s3) = 3"
    using l1 l2 l3 assms(1) by (simp add: McsRwLock_init_def)
  moreover have "pred_flags (blocks s3 (t1, ?b1)) = kPredFlagGranted"
    "pred_flags (blocks s3 (t2, ?b2)) = kPredFlagGranted"
    "pred_flags (blocks s3 (t3, ?b3)) = kPredFlagGranted"
    using b1 b2 b3 assms(2-4) by simp_all
  moreover have "tail (lock s3) = to_tail_int t3 ?b3" using l3 by simp
  ultimately show ?thesis
    using 1 2 3 by (simp add: acquire_unconditional_rw_reader_ext_def)
qed

theorem three_reader_fan_in_witness:
  "lock fresh_xmem = McsRwLock_init \<and>
   (\<exists>s1 s2 s3.
      acquire_unconditional_rw_reader_ext 1 1 fresh_xmem = Ret 1 s1
    \<and> acquire_unconditional_rw_reader_ext 1 2 s1 = Ret 1 s2
    \<and> acquire_unconditional_rw_reader_ext 1 3 s2 = Ret 1 s3
    \<and> nreaders (lock s3) = 3
    \<and> pred_flags (blocks s3 (1, 1)) = kPredFlagGranted
    \<and> pred_flags (blocks s3 (2, 1)) = kPredFlagGranted
    \<and> pred_flags (blocks s3 (3, 1)) = kPredFlagGranted
    \<and> tail (lock s3) = to_tail_int 3 1)"
proof -
  have *: "lock fresh_xmem = McsRwLock_init" "cur_block fresh_xmem = (\<lambda>_. 0)"
    by (simp_all add: fresh_xmem_def fresh_mem_def)
  from three_reader_fan_in [of fresh_xmem 1 2 3 0] * show ?thesis
    by simp
qed

section \<open>The WW lock: a lone acquire and release, and guests\<close>


text \<open>
  Claim C5. On a WW lock whose word is 0, a thread that nobody disturbs and that has a
  block left returns from \<^verbatim>\<open>acquire_unconditional\<close> (three steps) with the block it was
  issued; the lock word is then its tail word and its block has no successor. \<^verbatim>\<open>release\<close>
  with that block index goes by the no-successor check to the compare-and-swap, which
  succeeds, and returns (three steps) with the lock word 0.
\<close>

theorem ww_uncontended:
  assumes "data s = 0" "ww_cur_block s my_id < 0xFFFF"
  shows "\<exists>s1 s2.
       acquire_unconditional (Suc (Suc (Suc fuel))) my_id s = Some (ww_cur_block s my_id + 1, s1)
     \<and> data s1 = to_tail_int my_id (ww_cur_block s my_id + 1)
     \<and> \<not> has_successor (ww_blocks s1 (my_id, ww_cur_block s my_id + 1))
     \<and> pc (fst (ww_step my_id (ww_step my_id
           (ww_idle\<lparr>pc := Holding, local_block_index := ww_cur_block s my_id + 1\<rparr>, s1))))
         = ReleaseCas
     \<and> release (Suc (Suc (Suc fuel'))) my_id (ww_cur_block s my_id + 1) s1 = Some s2
     \<and> data s2 = 0"
  using assms issued_block_nonzero [OF assms(2)]
  by (simp add: acquire_unconditional_def release_def ww_step_def ww_idle_def Let_def
      has_successor_def kMcsGuestId_def)

theorem ww_uncontended_witness:
  "data ww_fresh = 0 \<and> ww_cur_block ww_fresh 1 < 0xFFFF \<and>
   (\<exists>s1 s2. acquire_unconditional 3 1 ww_fresh = Some (1, s1)
      \<and> data s1 = to_tail_int 1 1
      \<and> release 3 1 1 s1 = Some s2 \<and> data s2 = 0)"
proof -
  have a: "data ww_fresh = 0" "ww_cur_block ww_fresh 1 < 0xFFFF"
    by (simp_all add: ww_fresh_def)
  from ww_uncontended [OF a, of 0 0] a show ?thesis
    by (auto simp: ww_fresh_def numeral_3_eq_3)
qed






section \<open>Returns of an operation that has waited\<close>

inductive_simps may_return_Ret [simp]: "may_return (Ret v s) v' s'"
inductive_simps may_return_OutOfFuel [simp]: "may_return (OutOfFuel s) v' s'"
inductive_simps may_return_OutOfBlocks [simp]: "may_return (OutOfBlocks s) v' s'"









lemma ext_first_writer:
  assumes "tail (lock s) = 0" "nreaders (lock s) = 0" "cur_block s t < 0xFFFF"
  shows "\<exists>s'. acquire_writer_lock fuel t 0 timeout s = Ret (kErrorCodeOk, cur_block s t + 1) s'
     \<and> lock s' = (lock s)\<lparr>tail := to_tail_int t (cur_block s t + 1), next_writer := 0\<rparr>
     \<and> blocks s' = (blocks s)((t, cur_block s t + 1) := granted_writer)
     \<and> cur_block s' = (cur_block s)(t := cur_block s t + 1)"
  using assms
  by (simp add: acquire_writer_lock_def init_block_def issue_new_block_def Let_def
      mcs_defs granted_writer_def)



lemma ext_writer_release_alone:
  assumes "next_id (blocks s (t, b)) = 0" "tail (lock s) = to_tail_int t b"
  shows "\<exists>s'. release_writer_lock t b s = Ret () s'
     \<and> lock s' = (lock s)\<lparr>tail := 0\<rparr>
     \<and> blocks s' = (blocks s)((t, b) := set_next_flag_busy (blocks s (t, b)))
     \<and> cur_block s' = cur_block s"
  using assms
  by (simp add: release_writer_lock_def Let_def spin_until_def mcs_defs
      kSuccIdSuccessorLeaving_def)




lemma writer_block_simps [simp]:
  "next_id granted_writer = 0" "\<not> next_flag_has_successor granted_writer"
  "\<not> role_reader granted_writer" "pred_flags granted_writer = kPredFlagGranted"
  "flag_state (next_flags granted_writer) = kSuccFlagDirectGranted"
  "\<not> flag_busy (next_flags granted_writer)"
  "next_id (waiting_writer p) = 0" "pred_id (waiting_writer p) = p"
  "\<not> role_reader (waiting_writer p)" "pred_flags (waiting_writer p) = kPredFlagWaiting"
  "flag_state (next_flags (waiting_writer p)) = kSuccFlagWaiting"
  by (simp_all add: granted_writer_def waiting_writer_def mcs_defs)





































section \<open>The last reader wakes the next writer\<close>

lemma simple_first_reader:
  assumes "tail (lock s) = 0" "cur_block s t < 0xFFFF"
  shows "\<exists>s'. acquire_unconditional_rw_reader_simple t s = Ret (cur_block s t + 1) s'
     \<and> lock s' = (lock s)\<lparr>tail := to_tail_int t (cur_block s t + 1),
                            nreaders := nreaders (lock s) + 1\<rparr>
     \<and> blocks s' = (blocks s)((t, cur_block s t + 1) := granted_reader_simple)
     \<and> cur_block s' = (cur_block s)(t := cur_block s t + 1)"
  using assms
  by (simp add: acquire_unconditional_rw_reader_simple_def issue_new_block_def Let_def
      finalize_acquire_reader_simple_def mcs_defs granted_reader_simple_def)

lemma simple_writer_waits:
  assumes "tail (lock s) = to_tail_int p pb" "to_tail_int p pb \<noteq> 0" "cur_block s t < 0xFFFF"
    and "(p, pb) \<noteq> (t, cur_block s t + 1)"
  defines "b \<equiv> cur_block s t + 1"
  defines "w \<equiv> acquire_unconditional_rw_writer_simple t s"
  shows "spinning w
     \<and> lock (mem_of w) = (lock s)\<lparr>tail := to_tail_int t b\<rparr>
     \<and> blocks (mem_of w) = (blocks s)
          ((p, pb) := set_successor_next_only t b (set_successor_class_writer (blocks s (p, pb))),
           (t, b) := init_writer (blocks s (t, b)))
     \<and> cur_block (mem_of w) = (cur_block s)(t := b)
     \<and> (\<forall>x. is_granted (blocks x (t, b)) \<longrightarrow> resume w x = Ret b x)"
proof -
  have ne: "((t, cur_block s t + 1) = (p, pb)) = False" "((p, pb) = (t, cur_block s t + 1)) = False"
    using assms(4) by auto
  show ?thesis
    using assms(1,2,3) unfolding w_def b_def
    by (simp add: acquire_unconditional_rw_writer_simple_def issue_new_block_def Let_def
        spin_until_def mcs_defs ne fun_upd_twist del: prod.inject to_tail_int_eq_0)
qed

lemma simple_reader_release_wakes_writer:
  assumes "successor_block_index (blocks s (t, b)) \<noteq> 0"
    and "successor_class (self (blocks s (t, b))) = kSuccessorClassWriter"
    and "successor_thread_id (blocks s (t, b)) = q" "q \<noteq> 0"
    and "nreaders (lock s) = 1"
  shows "\<exists>s'. release_rw_reader_simple t b s = Ret () s'
     \<and> lock s' = (lock s)\<lparr>next_writer := 0, nreaders := 0\<rparr>
     \<and> blocks s' = (blocks s)((q, cur_block s q) := unblock (blocks s (q, cur_block s q)))
     \<and> cur_block s' = cur_block s"
  using assms
  by (simp add: release_rw_reader_simple_def Let_def spin_until_def mcs_defs)

lemma simple_writer_waits_for_reader:
  assumes "lock s = McsRwLock_init" "t1 \<noteq> t2" "t2 \<noteq> 0"
    and "cur_block s t1 < 0xFFFF" "cur_block s t2 < 0xFFFF"
  defines "b1 \<equiv> cur_block s t1 + 1" and "b2 \<equiv> cur_block s t2 + 1"
  shows "\<exists>s1 s3.
      acquire_unconditional_rw_reader_simple t1 s = Ret b1 s1
    \<and> spinning (acquire_unconditional_rw_writer_simple t2 s1)
    \<and> release_rw_reader_simple t1 b1 (mem_of (acquire_unconditional_rw_writer_simple t2 s1)) = Ret () s3
    \<and> resume (acquire_unconditional_rw_writer_simple t2 s1) s3 = Ret b2 s3
    \<and> is_granted (blocks s3 (t2, b2)) \<and> \<not> is_reader (blocks s3 (t2, b2))
    \<and> lock s3 = \<lparr>tail = to_tail_int t2 b2, next_writer = 0, nreaders = 0\<rparr>"
proof -
  have nz: "b1 \<noteq> 0" "b2 \<noteq> 0"
    using assms(4,5) by (simp_all add: issued_block_nonzero b1_def b2_def)
  obtain s1 where 1: "acquire_unconditional_rw_reader_simple t1 s = Ret b1 s1"
    and l1: "lock s1 = (lock s)\<lparr>tail := to_tail_int t1 b1, nreaders := nreaders (lock s) + 1\<rparr>"
    and k1: "blocks s1 = (blocks s)((t1, b1) := granted_reader_simple)"
    and c1: "cur_block s1 = (cur_block s)(t1 := b1)"
    using simple_first_reader [of s t1] assms(1,4)
    by (auto simp: McsRwLock_init_def b1_def)
  let ?w = "acquire_unconditional_rw_writer_simple t2 s1"
  have c12: "cur_block s1 t2 + 1 = b2" using c1 assms(2) by (simp add: b2_def)
  have w: "spinning ?w"
    "lock (mem_of ?w) = (lock s1)\<lparr>tail := to_tail_int t2 b2\<rparr>"
    "blocks (mem_of ?w) = (blocks s1)
          ((t1, b1) := set_successor_next_only t2 b2 (set_successor_class_writer (blocks s1 (t1, b1))),
           (t2, b2) := init_writer (blocks s1 (t2, b2)))"
    "cur_block (mem_of ?w) = (cur_block s1)(t2 := b2)"
    "\<forall>x. is_granted (blocks x (t2, b2)) \<longrightarrow> resume ?w x = Ret b2 x"
    using simple_writer_waits [of s1 t1 b1 t2] assms(2,5) nz l1 c1 c12
    by auto
  obtain s3 where 3: "release_rw_reader_simple t1 b1 (mem_of ?w) = Ret () s3"
    and l3: "lock s3 = (lock (mem_of ?w))\<lparr>next_writer := 0, nreaders := 0\<rparr>"
    and k3: "blocks s3 = (blocks (mem_of ?w))
               ((t2, cur_block (mem_of ?w) t2) := unblock (blocks (mem_of ?w) (t2, cur_block (mem_of ?w) t2)))"
    using simple_reader_release_wakes_writer [of "mem_of ?w" t1 b1 t2] w(2,3,4) l1 assms(1,2,3) nz
    by (auto simp: mcs_defs)
  have g: "is_granted (blocks s3 (t2, b2))" "\<not> is_reader (blocks s3 (t2, b2))"
    using k3 w(3,4) by (simp_all add: mcs_defs)
  moreover have "resume ?w s3 = Ret b2 s3" using w(5) g by simp
  moreover have "lock s3 = \<lparr>tail = to_tail_int t2 b2, next_writer = 0, nreaders = 0\<rparr>"
    using l3 w(2) l1 assms(1) by (simp add: McsRwLock_init_def)
  ultimately show ?thesis using 1 w(1) 3 by simp
qed




lemma simple_last_reader_release:
  assumes "nreaders (lock s) = 1"
    and "successor_is_ready (blocks s (t, b)) \<or> tail (lock s) = to_tail_int t b"
  defines "w \<equiv> (if successor_is_ready (blocks s (t, b)) \<and> has_writer_successor (blocks s (t, b))
                 then successor_thread_id (blocks s (t, b)) else next_writer (lock s))"
  assumes "w \<noteq> kNextWriterNone"
  shows "\<exists>s'. release_rw_reader_simple t b s = Ret () s'
     \<and> next_writer (lock s') = kNextWriterNone \<and> nreaders (lock s') = 0
     \<and> blocks s' = (blocks s)((w, cur_block s w) := unblock (blocks s (w, cur_block s w)))"
  using assms(1,2,4) unfolding w_def
  by (auto simp add: release_rw_reader_simple_def Let_def spin_until_def mcs_defs)

lemma ext_finish_release_wakes_writer:
  assumes "nreaders (lock s) = 1" "next_writer (lock s) = q" "q \<noteq> kNextWriterNone"
    and "pred_id (blocks s (q, cur_block s q)) = 0"
  shows "\<exists>s'. finish_release_reader_lock s = Ret () s'
     \<and> lock s' = (lock s)\<lparr>next_writer := kNextWriterNone, nreaders := 0\<rparr>
     \<and> blocks s' = (blocks s)((q, cur_block s q) :=
          (blocks s (q, cur_block s q))\<lparr>pred_id := kPredIdAcquired, pred_flags := kPredFlagGranted\<rparr>)
     \<and> cur_block s' = cur_block s"
  using assms
  by (simp add: finish_release_reader_lock_def Let_def spin_until_def mcs_defs)

lemma ext_writer_waits:
  fixes fuel :: nat
  assumes "tail (lock s) = to_tail_int p pb" "to_tail_int p pb \<noteq> 0" "cur_block s t < 0xFFFF"
    and "(p, pb) \<noteq> (t, cur_block s t + 1)"
    and "next_id (blocks s (p, pb)) = 0" "\<not> next_flag_has_successor (blocks s (p, pb))"
  defines "b \<equiv> cur_block s t + 1"
  defines "w \<equiv> acquire_unconditional_rw_writer_ext fuel t s"
  shows "spinning w
     \<and> lock (mem_of w) = (lock s)\<lparr>tail := to_tail_int t b\<rparr>
     \<and> blocks (mem_of w) = (blocks s)
          ((p, pb) := (blocks s (p, pb))
             \<lparr>next_flags := (next_flags (blocks s (p, pb)))\<lparr>flag_successor := kSuccFlagSuccessorWriter\<rparr>,
              next_id := to_tail_int t b\<rparr>,
           (t, b) := waiting_writer (to_tail_int p pb))
     \<and> cur_block (mem_of w) = (cur_block s)(t := b)
     \<and> (\<forall>x. pred_flag_is_granted (blocks x (t, b))
            \<longrightarrow> resume w x = Ret b (upd_block (t, b) set_next_flag_granted x))"
proof -
  have ne: "((t, cur_block s t + 1) = (p, pb)) = False" "((p, pb) = (t, cur_block s t + 1)) = False"
    using assms(4) by auto
  show ?thesis
    using assms(1,2,3,5,6) unfolding w_def b_def
    by (simp add: acquire_unconditional_rw_writer_ext_def acquire_writer_lock_def init_block_def
        issue_new_block_def Let_def spin_until_def timeout_granted_def kTimeoutNever_def
        kPredIdAcquired_def mcs_defs waiting_writer_def ne fun_upd_twist
        del: prod.inject to_tail_int_eq_0)
qed

lemma ext_reader_release_to_writer:
  assumes "next_id (blocks s (t, b)) = to_tail_int q qb" "to_tail_int q qb \<noteq> 0"
    and "to_tail_int q qb \<noteq> kSuccIdSuccessorLeaving" "to_tail_int q qb \<noteq> kSuccIdNoSuccessor"
    and "(q, qb) \<noteq> (t, b)" "q \<noteq> kNextWriterNone" "cur_block s q = qb"
    and "\<not> role_reader (blocks s (q, qb))" "pred_id (blocks s (q, qb)) = to_tail_int t b"
    and "nreaders (lock s) = 1"
  shows "\<exists>s'. release_reader_lock t b s = Ret () s'
     \<and> lock s' = (lock s)\<lparr>next_writer := kNextWriterNone, nreaders := 0\<rparr>
     \<and> blocks s' = (blocks s)
          ((t, b) := set_next_flag_busy (blocks s (t, b)),
           (q, qb) := (blocks s (q, qb))\<lparr>pred_id := kPredIdAcquired, pred_flags := kPredFlagGranted\<rparr>)
     \<and> cur_block s' = cur_block s"
proof -
  have ne: "((t, b) = (q, qb)) = False" "((q, qb) = (t, b)) = False"
    using assms(5) by auto
  show ?thesis
    using assms(1-4,6-10)
    by (simp add: release_reader_lock_def finish_release_reader_lock_def Let_def spin_until_def
        mcs_defs ne del: prod.inject to_tail_int_eq_0)
qed


lemma ext_writer_waits_for_reader:
  fixes fuel :: nat
  assumes "lock s = McsRwLock_init" "t1 \<noteq> t2" "t2 \<noteq> kNextWriterNone"
    and "cur_block s t1 < 0xFFFF" "cur_block s t2 < 0xFFFF"
    and "to_tail_int t2 (cur_block s t2 + 1) \<noteq> kSuccIdSuccessorLeaving"
    and "to_tail_int t2 (cur_block s t2 + 1) \<noteq> kSuccIdNoSuccessor"
  defines "b1 \<equiv> cur_block s t1 + 1" and "b2 \<equiv> cur_block s t2 + 1"
  shows "\<exists>s1 s3 s4.
      acquire_unconditional_rw_reader_ext fuel t1 s = Ret b1 s1
    \<and> spinning (acquire_unconditional_rw_writer_ext fuel t2 s1)
    \<and> release_rw_reader_ext t1 b1 (mem_of (acquire_unconditional_rw_writer_ext fuel t2 s1)) = Ret () s3
    \<and> lock s3 = \<lparr>tail = to_tail_int t2 b2, next_writer = 0, nreaders = 0\<rparr>
    \<and> pred_flag_is_granted (blocks s3 (t2, b2)) \<and> is_writer (blocks s3 (t2, b2))
    \<and> resume (acquire_unconditional_rw_writer_ext fuel t2 s1) s3 = Ret b2 s4
    \<and> lock s4 = \<lparr>tail = to_tail_int t2 b2, next_writer = 0, nreaders = 0\<rparr>
    \<and> pred_flag_is_granted (blocks s4 (t2, b2)) \<and> next_flag_is_granted (blocks s4 (t2, b2))"
proof -
  have nz: "b1 \<noteq> 0" "b2 \<noteq> 0"
    using assms(4,5) by (simp_all add: issued_block_nonzero b1_def b2_def)
  obtain s1 where 1: "acquire_reader_lock fuel t1 0 kTimeoutNever s = Ret (kErrorCodeOk, b1) s1"
    and l1: "lock s1 = (lock s)\<lparr>tail := to_tail_int t1 b1, nreaders := nreaders (lock s) + 1\<rparr>"
    and k1: "blocks s1 = (blocks s)((t1, b1) := granted_reader)"
    and c1: "cur_block s1 = (cur_block s)(t1 := b1)"
    using ext_first_reader [of s t1 fuel kTimeoutNever] assms(1,4)
    by (auto simp: McsRwLock_init_def b1_def)
  let ?w = "acquire_unconditional_rw_writer_ext fuel t2 s1"
  have c12: "cur_block s1 t2 + 1 = b2" using c1 assms(2) by (simp add: b2_def)
  have w: "spinning ?w"
    "lock (mem_of ?w) = (lock s1)\<lparr>tail := to_tail_int t2 b2\<rparr>"
    "blocks (mem_of ?w) = (blocks s1)
          ((t1, b1) := (blocks s1 (t1, b1))
             \<lparr>next_flags := (next_flags (blocks s1 (t1, b1)))\<lparr>flag_successor := kSuccFlagSuccessorWriter\<rparr>,
              next_id := to_tail_int t2 b2\<rparr>,
           (t2, b2) := waiting_writer (to_tail_int t1 b1))"
    "cur_block (mem_of ?w) = (cur_block s1)(t2 := b2)"
    "\<forall>x. pred_flag_is_granted (blocks x (t2, b2))
            \<longrightarrow> resume ?w x = Ret b2 (upd_block (t2, b2) set_next_flag_granted x)"
    using ext_writer_waits [of s1 t1 b1 t2 fuel] assms(2,5) nz l1 k1 c1 c12
    by (auto simp: mcs_defs)
  obtain s3 where 3: "release_reader_lock t1 b1 (mem_of ?w) = Ret () s3"
    and l3: "lock s3 = (lock (mem_of ?w))\<lparr>next_writer := kNextWriterNone, nreaders := 0\<rparr>"
    and k3: "blocks s3 = (blocks (mem_of ?w))
          ((t1, b1) := set_next_flag_busy (blocks (mem_of ?w) (t1, b1)),
           (t2, b2) := (blocks (mem_of ?w) (t2, b2))\<lparr>pred_id := kPredIdAcquired, pred_flags := kPredFlagGranted\<rparr>)"
    using ext_reader_release_to_writer [of "mem_of ?w" t1 b1 t2 b2] w(2,3,4) l1 assms(1,2,3,6,7) nz
    by (auto simp: McsRwLock_init_def kNextWriterNone_def b2_def)
  have g: "pred_flag_is_granted (blocks s3 (t2, b2))" "is_writer (blocks s3 (t2, b2))"
    using k3 w(3) by (simp_all add: mcs_defs)
  have l3': "lock s3 = \<lparr>tail = to_tail_int t2 b2, next_writer = 0, nreaders = 0\<rparr>"
    using l3 w(2) l1 assms(1) by (simp add: McsRwLock_init_def kNextWriterNone_def)
  let ?s4 = "upd_block (t2, b2) set_next_flag_granted s3"
  have r: "resume ?w s3 = Ret b2 ?s4" using w(5) g by simp
  have "pred_flag_is_granted (blocks ?s4 (t2, b2))" "next_flag_is_granted (blocks ?s4 (t2, b2))"
    using k3 w(3) by (simp_all add: mcs_defs)
  moreover have "lock ?s4 = \<lparr>tail = to_tail_int t2 b2, next_writer = 0, nreaders = 0\<rparr>"
    using l3' by simp
  ultimately show ?thesis
    using 1 w(1) 3 l3' g r
    by (simp add: acquire_unconditional_rw_reader_ext_def release_rw_reader_ext_def)
qed

text \<open>
  Claim C6. A reader that releases with \<^verbatim>\<open>nreaders\<close> 1 is the last: its decrement returns
  1 and \<^verbatim>\<open>nreaders\<close> then reads 0. In the Simple \<^verbatim>\<open>release_rw_reader\<close>, when the next writer
  it then reads (its writer successor, which it has just published, or else the
  \<^verbatim>\<open>next_writer\<close> of the lock) is not none, \<^verbatim>\<open>next_writer\<close> ends none, \<^verbatim>\<open>nreaders\<close> ends 0 and
  that writer's current block is unblocked. In the Extended \<^verbatim>\<open>finish_release_reader_lock\<close>,
  when \<^verbatim>\<open>next_writer\<close> is not none and that writer's block has no predecessor, \<^verbatim>\<open>next_writer\<close>
  ends none, \<^verbatim>\<open>nreaders\<close> ends 0 and the block gets \<^verbatim>\<open>pred_id\<close> \<^verbatim>\<open>kPredIdAcquired\<close> and
  \<^verbatim>\<open>pred_flags\<close> Granted. In the scenario, in both locks: a reader acquires the empty lock;
  a writer's unconditional acquire waits; the reader's release returns; then the lock word
  has the writer's tail, no next writer and no readers, the writer's block is granted, and
  the waiting acquire, resumed, returns the writer's block index. The threads differ,
  each has a block left, the writer's thread id is not 0 and its tail word is not a
  sentinel.
\<close>

theorem last_reader_wakes_next_writer:
  fixes fuel :: nat
  assumes "lock s = McsRwLock_init" "lock x = McsRwLock_init"
    and "t1 \<noteq> t2" "t2 \<noteq> kNextWriterNone"
    and "cur_block s t1 < 0xFFFF" "cur_block s t2 < 0xFFFF"
    and "cur_block x t1 < 0xFFFF" "cur_block x t2 < 0xFFFF"
    and "to_tail_int t2 (cur_block x t2 + 1) \<noteq> kSuccIdSuccessorLeaving"
    and "to_tail_int t2 (cur_block x t2 + 1) \<noteq> kSuccIdNoSuccessor"
  shows "(\<forall>m t b. nreaders (lock m) = 1
            \<and> (successor_is_ready (blocks m (t, b)) \<or> tail (lock m) = to_tail_int t b)
            \<and> (if successor_is_ready (blocks m (t, b)) \<and> has_writer_successor (blocks m (t, b))
                then successor_thread_id (blocks m (t, b)) else next_writer (lock m))
                 \<noteq> kNextWriterNone
          \<longrightarrow> (\<exists>m'. release_rw_reader_simple t b m = Ret () m'
                 \<and> next_writer (lock m') = kNextWriterNone \<and> nreaders (lock m') = 0
                 \<and> (let w = (if successor_is_ready (blocks m (t, b))
                                  \<and> has_writer_successor (blocks m (t, b))
                               then successor_thread_id (blocks m (t, b)) else next_writer (lock m))
                     in blocks m' = (blocks m)((w, cur_block m w) := unblock (blocks m (w, cur_block m w))))))
       \<and> (\<forall>m q. nreaders (lock m) = 1 \<and> next_writer (lock m) = q \<and> q \<noteq> kNextWriterNone
              \<and> pred_id (blocks m (q, cur_block m q)) = 0
          \<longrightarrow> (\<exists>m'. finish_release_reader_lock m = Ret () m'
                 \<and> lock m' = (lock m)\<lparr>next_writer := kNextWriterNone, nreaders := 0\<rparr>
                 \<and> blocks m' = (blocks m)((q, cur_block m q) :=
                      (blocks m (q, cur_block m q))\<lparr>pred_id := kPredIdAcquired,
                                                    pred_flags := kPredFlagGranted\<rparr>)))
       \<and> (\<exists>s1 s3.
            acquire_unconditional_rw_reader_simple t1 s = Ret (cur_block s t1 + 1) s1
          \<and> spinning (acquire_unconditional_rw_writer_simple t2 s1)
          \<and> release_rw_reader_simple t1 (cur_block s t1 + 1)
               (mem_of (acquire_unconditional_rw_writer_simple t2 s1)) = Ret () s3
          \<and> resume (acquire_unconditional_rw_writer_simple t2 s1) s3 = Ret (cur_block s t2 + 1) s3
          \<and> is_granted (blocks s3 (t2, cur_block s t2 + 1))
          \<and> \<not> is_reader (blocks s3 (t2, cur_block s t2 + 1))
          \<and> lock s3 = \<lparr>tail = to_tail_int t2 (cur_block s t2 + 1), next_writer = 0, nreaders = 0\<rparr>)
       \<and> (\<exists>x1 x3 x4.
            acquire_unconditional_rw_reader_ext fuel t1 x = Ret (cur_block x t1 + 1) x1
          \<and> spinning (acquire_unconditional_rw_writer_ext fuel t2 x1)
          \<and> release_rw_reader_ext t1 (cur_block x t1 + 1)
               (mem_of (acquire_unconditional_rw_writer_ext fuel t2 x1)) = Ret () x3
          \<and> lock x3 = \<lparr>tail = to_tail_int t2 (cur_block x t2 + 1), next_writer = 0, nreaders = 0\<rparr>
          \<and> pred_flag_is_granted (blocks x3 (t2, cur_block x t2 + 1))
          \<and> is_writer (blocks x3 (t2, cur_block x t2 + 1))
          \<and> resume (acquire_unconditional_rw_writer_ext fuel t2 x1) x3 = Ret (cur_block x t2 + 1) x4
          \<and> lock x4 = \<lparr>tail = to_tail_int t2 (cur_block x t2 + 1), next_writer = 0, nreaders = 0\<rparr>
          \<and> pred_flag_is_granted (blocks x4 (t2, cur_block x t2 + 1))
          \<and> next_flag_is_granted (blocks x4 (t2, cur_block x t2 + 1)))"
proof -
  have a: "\<forall>m t b. nreaders (lock m) = 1
            \<and> (successor_is_ready (blocks m (t, b)) \<or> tail (lock m) = to_tail_int t b)
            \<and> (if successor_is_ready (blocks m (t, b)) \<and> has_writer_successor (blocks m (t, b))
                then successor_thread_id (blocks m (t, b)) else next_writer (lock m))
                 \<noteq> kNextWriterNone
          \<longrightarrow> (\<exists>m'. release_rw_reader_simple t b m = Ret () m'
                 \<and> next_writer (lock m') = kNextWriterNone \<and> nreaders (lock m') = 0
                 \<and> (let w = (if successor_is_ready (blocks m (t, b))
                                  \<and> has_writer_successor (blocks m (t, b))
                               then successor_thread_id (blocks m (t, b)) else next_writer (lock m))
                     in blocks m' = (blocks m)((w, cur_block m w) := unblock (blocks m (w, cur_block m w)))))"
    using simple_last_reader_release unfolding Let_def by blast
  have b: "\<forall>m q. nreaders (lock m) = 1 \<and> next_writer (lock m) = q \<and> q \<noteq> kNextWriterNone
              \<and> pred_id (blocks m (q, cur_block m q)) = 0
          \<longrightarrow> (\<exists>m'. finish_release_reader_lock m = Ret () m'
                 \<and> lock m' = (lock m)\<lparr>next_writer := kNextWriterNone, nreaders := 0\<rparr>
                 \<and> blocks m' = (blocks m)((q, cur_block m q) :=
                      (blocks m (q, cur_block m q))\<lparr>pred_id := kPredIdAcquired,
                                                    pred_flags := kPredFlagGranted\<rparr>))"
    using ext_finish_release_wakes_writer by blast
  have t2: "t2 \<noteq> 0" using assms(4) by (simp add: kNextWriterNone_def)
  note c = simple_writer_waits_for_reader [OF assms(1,3) t2 assms(5,6)]
  note d = ext_writer_waits_for_reader [OF assms(2,3,4,7,8,9,10), of fuel]
  from a b c d show ?thesis by blast
qed

theorem last_reader_wakes_next_writer_witness:
  "lock fresh_smem = McsRwLock_init \<and> lock fresh_xmem = McsRwLock_init
   \<and> (\<exists>s1 s3.
         acquire_unconditional_rw_reader_simple 1 fresh_smem = Ret 1 s1
       \<and> spinning (acquire_unconditional_rw_writer_simple 2 s1)
       \<and> release_rw_reader_simple 1 1 (mem_of (acquire_unconditional_rw_writer_simple 2 s1)) = Ret () s3
       \<and> resume (acquire_unconditional_rw_writer_simple 2 s1) s3 = Ret 1 s3
       \<and> lock s3 = \<lparr>tail = to_tail_int 2 1, next_writer = 0, nreaders = 0\<rparr>)
   \<and> (\<exists>x1 x3 x4.
         acquire_unconditional_rw_reader_ext 0 1 fresh_xmem = Ret 1 x1
       \<and> spinning (acquire_unconditional_rw_writer_ext 0 2 x1)
       \<and> release_rw_reader_ext 1 1 (mem_of (acquire_unconditional_rw_writer_ext 0 2 x1)) = Ret () x3
       \<and> resume (acquire_unconditional_rw_writer_ext 0 2 x1) x3 = Ret 1 x4
       \<and> lock x4 = \<lparr>tail = to_tail_int 2 1, next_writer = 0, nreaders = 0\<rparr>)"
proof -
  have h: "lock fresh_smem = McsRwLock_init" "lock fresh_xmem = McsRwLock_init"
    "(1 :: ThreadId) \<noteq> 2" "(2 :: ThreadId) \<noteq> kNextWriterNone"
    "cur_block fresh_smem 1 < 0xFFFF" "cur_block fresh_smem 2 < 0xFFFF"
    "cur_block fresh_xmem 1 < 0xFFFF" "cur_block fresh_xmem 2 < 0xFFFF"
    "to_tail_int 2 (cur_block fresh_xmem 2 + 1) \<noteq> kSuccIdSuccessorLeaving"
    "to_tail_int 2 (cur_block fresh_xmem 2 + 1) \<noteq> kSuccIdNoSuccessor"
    by (simp_all add: fresh_smem_def fresh_xmem_def fresh_mem_def to_tail_int_def
        kNextWriterNone_def kSuccIdNoSuccessor_def kSuccIdSuccessorLeaving_def)
  have c: "cur_block fresh_smem 1 + 1 = 1" "cur_block fresh_smem 2 + 1 = 1"
    "cur_block fresh_xmem 1 + 1 = 1" "cur_block fresh_xmem 2 + 1 = 1"
    by (simp_all add: fresh_smem_def fresh_xmem_def fresh_mem_def)
  from last_reader_wakes_next_writer [OF h, of 0]
  have "(\<exists>s1 s3.
         acquire_unconditional_rw_reader_simple 1 fresh_smem = Ret 1 s1
       \<and> spinning (acquire_unconditional_rw_writer_simple 2 s1)
       \<and> release_rw_reader_simple 1 1 (mem_of (acquire_unconditional_rw_writer_simple 2 s1)) = Ret () s3
       \<and> resume (acquire_unconditional_rw_writer_simple 2 s1) s3 = Ret 1 s3
       \<and> lock s3 = \<lparr>tail = to_tail_int 2 1, next_writer = 0, nreaders = 0\<rparr>)
   \<and> (\<exists>x1 x3 x4.
         acquire_unconditional_rw_reader_ext 0 1 fresh_xmem = Ret 1 x1
       \<and> spinning (acquire_unconditional_rw_writer_ext 0 2 x1)
       \<and> release_rw_reader_ext 1 1 (mem_of (acquire_unconditional_rw_writer_ext 0 2 x1)) = Ret () x3
       \<and> resume (acquire_unconditional_rw_writer_ext 0 2 x1) x3 = Ret 1 x4
       \<and> lock x4 = \<lparr>tail = to_tail_int 2 1, next_writer = 0, nreaders = 0\<rparr>)"
    unfolding c by blast
  with h(1,2) show ?thesis by simp
qed

section \<open>A reader try-acquire against a writer\<close>

text \<open>
  The Simple \<^verbatim>\<open>acquire_try_rw_reader\<close> makes one attempt: with a pending
  \<^verbatim>\<open>next_writer\<close>, or with a writer's block at the tail, it returns 0 and leaves the
  lock word and every block as they were.
\<close>

lemma simple_try_reader_fails_against_writer:
  assumes "cur_block s t < 0xFFFF"
    and "next_writer (lock s) \<noteq> kNextWriterNone
         \<or> tail (lock s) \<noteq> 0 \<and> \<not> is_reader (blocks s (dereference_rw_tail_block (tail (lock s))))"
  shows "acquire_try_rw_reader_simple spurious t s
           = Ret 0 (s\<lparr>cur_block := (cur_block s)(t := cur_block s t + 1)\<rparr>)"
  using assms
  by (auto simp: acquire_try_rw_reader_simple_def issue_new_block_def
      retry_async_rw_reader_simple_def Let_def)

lemma simple_first_writer:
  assumes "tail (lock s) = 0" "nreaders (lock s) = 0" "cur_block s t < 0xFFFF"
  shows "\<exists>s'. acquire_unconditional_rw_writer_simple t s = Ret (cur_block s t + 1) s'
     \<and> lock s' = (lock s)\<lparr>tail := to_tail_int t (cur_block s t + 1), next_writer := 0\<rparr>
     \<and> blocks s' = (blocks s)((t, cur_block s t + 1) := granted_writer_simple)
     \<and> cur_block s' = (cur_block s)(t := cur_block s t + 1)"
  using assms
  by (simp add: acquire_unconditional_rw_writer_simple_def issue_new_block_def Let_def
      mcs_defs granted_writer_simple_def)

text \<open>
  The Extended \<^verbatim>\<open>acquire_try_rw_reader\<close> returns 0 when it reads a pending
  \<^verbatim>\<open>next_writer\<close>; no other path of its loop returns 0.
\<close>

lemma ext_try_reader_fails_against_next_writer:
  assumes "cur_block s t < 0xFFFF" "next_writer (lock s) \<noteq> kNextWriterNone"
  shows "acquire_try_rw_reader_ext (Suc fuel) t s
           = Ret 0 (s\<lparr>cur_block := (cur_block s)(t := cur_block s t + 1)\<rparr>)"
  using assms
  by (simp add: acquire_try_rw_reader_ext_def issue_new_block_def Let_def)

text \<open>
  With no pending \<^verbatim>\<open>next_writer\<close> and a writer's block at the tail, neither test of the
  \<^verbatim>\<open>while (true)\<close> loop holds: the call changes nothing and goes round again. Once the
  lock word is empty it installs its own block and returns the block index, holding the lock
  as a reader.
\<close>

lemma ext_try_reader_waits:
  fixes fuel :: nat
  assumes "cur_block s t < 0xFFFF" "next_writer (lock s) = kNextWriterNone"
    and "tail (lock s) \<noteq> 0"
    and "\<not> is_reader_ext (blocks s (dereference_rw_tail_block (tail (lock s))))"
  defines "b \<equiv> cur_block s t + 1"
  defines "w \<equiv> acquire_try_rw_reader_ext (Suc (Suc fuel)) t s"
  shows "spinning w \<and> mem_of w = s\<lparr>cur_block := (cur_block s)(t := b)\<rparr>
     \<and> (\<forall>x. tail (lock x) = 0 \<and> next_writer (lock x) = kNextWriterNone
           \<longrightarrow> (\<exists>x'. resume w x = Ret b x'
                 \<and> lock x' = (lock x)\<lparr>tail := to_tail_int t b, nreaders := nreaders (lock x) + 1\<rparr>
                 \<and> blocks x' = (blocks x)((t, b) := granted_reader)))"
  using assms(1-4) unfolding w_def b_def
  by (simp add: acquire_try_rw_reader_ext_def issue_new_block_def Let_def spin_until_def
      raw_atomic_compare_exchange_weak_def finish_acquire_reader_lock_def
      kSuccIdSuccessorLeaving_def mcs_defs granted_reader_def)

text \<open>
  Claim C2. While a writer holds the lock, \<^verbatim>\<open>acquire_try_rw_reader\<close> returns 0 and leaves
  the lock word as it was, in the Simple and in the Extended implementation.

  The code of the two implementations differs. On an empty lock, thread \<open>t1\<close> acquires as a
  writer and thread \<open>t2\<close> then calls \<^verbatim>\<open>acquire_try_rw_reader\<close>. In the Simple lock the
  call returns 0 with the lock word and the blocks unchanged. In the Extended lock the call
  does not return while the writer holds: it waits with the lock word and the blocks
  unchanged, and when the writer has released, it returns a block index that is not 0, as
  the single reader of the lock.
\<close>

theorem ext_try_reader_waits_for_writer:
  fixes fuel :: nat
  assumes "lock s = McsRwLock_init" "lock x = McsRwLock_init" "t1 \<noteq> t2"
    and "cur_block s t1 < 0xFFFF" "cur_block s t2 < 0xFFFF"
    and "cur_block x t1 < 0xFFFF" "cur_block x t2 < 0xFFFF"
  shows "(\<exists>s1 s2.
            acquire_unconditional_rw_writer_simple t1 s = Ret (cur_block s t1 + 1) s1
          \<and> acquire_try_rw_reader_simple spurious t2 s1 = Ret 0 s2
          \<and> lock s2 = lock s1 \<and> blocks s2 = blocks s1)
       \<and> (\<exists>x1 x3 x4.
            acquire_unconditional_rw_writer_ext fuel t1 x = Ret (cur_block x t1 + 1) x1
          \<and> spinning (acquire_try_rw_reader_ext (Suc (Suc fuel)) t2 x1)
          \<and> lock (mem_of (acquire_try_rw_reader_ext (Suc (Suc fuel)) t2 x1)) = lock x1
          \<and> blocks (mem_of (acquire_try_rw_reader_ext (Suc (Suc fuel)) t2 x1)) = blocks x1
          \<and> release_rw_writer_ext t1 (cur_block x t1 + 1)
               (mem_of (acquire_try_rw_reader_ext (Suc (Suc fuel)) t2 x1)) = Ret () x3
          \<and> resume (acquire_try_rw_reader_ext (Suc (Suc fuel)) t2 x1) x3 = Ret (cur_block x t2 + 1) x4
          \<and> cur_block x t2 + 1 \<noteq> 0
          \<and> lock x4 = \<lparr>tail = to_tail_int t2 (cur_block x t2 + 1), next_writer = 0, nreaders = 1\<rparr>)"
proof
  let ?b1 = "cur_block s t1 + 1"
  have nz: "?b1 \<noteq> 0" using assms(4) by (simp add: issued_block_nonzero)
  obtain s1 where 1: "acquire_unconditional_rw_writer_simple t1 s = Ret ?b1 s1"
    and l1: "lock s1 = (lock s)\<lparr>tail := to_tail_int t1 ?b1, next_writer := 0\<rparr>"
    and k1: "blocks s1 = (blocks s)((t1, ?b1) := granted_writer_simple)"
    and c1: "cur_block s1 = (cur_block s)(t1 := ?b1)"
    using simple_first_writer [of s t1] assms(1,4) by (auto simp: McsRwLock_init_def)
  have "acquire_try_rw_reader_simple spurious t2 s1
          = Ret 0 (s1\<lparr>cur_block := (cur_block s1)(t2 := cur_block s1 t2 + 1)\<rparr>)"
    using simple_try_reader_fails_against_writer [of s1 t2 spurious] l1 k1 c1 nz assms(3,5)
    by (simp add: granted_writer_simple_def mcs_defs)
  with 1 show "\<exists>s1 s2.
            acquire_unconditional_rw_writer_simple t1 s = Ret (cur_block s t1 + 1) s1
          \<and> acquire_try_rw_reader_simple spurious t2 s1 = Ret 0 s2
          \<and> lock s2 = lock s1 \<and> blocks s2 = blocks s1"
    by simp
next
  let ?b1 = "cur_block x t1 + 1" and ?b2 = "cur_block x t2 + 1"
  have nz: "?b1 \<noteq> 0" "?b2 \<noteq> 0" using assms(6,7) by (simp_all add: issued_block_nonzero)
  obtain x1 where 1: "acquire_writer_lock fuel t1 0 kTimeoutNever x = Ret (kErrorCodeOk, ?b1) x1"
    and l1: "lock x1 = (lock x)\<lparr>tail := to_tail_int t1 ?b1, next_writer := 0\<rparr>"
    and k1: "blocks x1 = (blocks x)((t1, ?b1) := granted_writer)"
    and c1: "cur_block x1 = (cur_block x)(t1 := ?b1)"
    using ext_first_writer [of x t1 fuel kTimeoutNever] assms(2,6)
    by (auto simp: McsRwLock_init_def)
  let ?w = "acquire_try_rw_reader_ext (Suc (Suc fuel)) t2 x1"
  have c12: "cur_block x1 t2 + 1 = ?b2" using c1 assms(3) by simp
  have w: "spinning ?w" "mem_of ?w = x1\<lparr>cur_block := (cur_block x1)(t2 := ?b2)\<rparr>"
    "\<forall>y. tail (lock y) = 0 \<and> next_writer (lock y) = kNextWriterNone
           \<longrightarrow> (\<exists>y'. resume ?w y = Ret ?b2 y'
                 \<and> lock y' = (lock y)\<lparr>tail := to_tail_int t2 ?b2, nreaders := nreaders (lock y) + 1\<rparr>
                 \<and> blocks y' = (blocks y)((t2, ?b2) := granted_reader))"
    using ext_try_reader_waits [of x1 t2 fuel] l1 k1 c1 c12 nz assms(2,3,7)
    by (simp_all add: mcs_defs)
  obtain x3 where 3: "release_writer_lock t1 ?b1 (mem_of ?w) = Ret () x3"
    and l3: "lock x3 = (lock (mem_of ?w))\<lparr>tail := 0\<rparr>"
    using ext_writer_release_alone [of "mem_of ?w" t1 ?b1] w(2) l1 k1 by auto
  have e: "tail (lock x3) = 0 \<and> next_writer (lock x3) = kNextWriterNone"
    using l3 w(2) l1 assms(2) by (simp add: McsRwLock_init_def kNextWriterNone_def)
  with w(3) obtain x4 where 4: "resume ?w x3 = Ret ?b2 x4"
    and l4: "lock x4 = (lock x3)\<lparr>tail := to_tail_int t2 ?b2, nreaders := nreaders (lock x3) + 1\<rparr>"
    by blast
  have "lock x4 = \<lparr>tail = to_tail_int t2 ?b2, next_writer = 0, nreaders = 1\<rparr>"
    using l4 l3 w(2) l1 assms(2) by (simp add: McsRwLock_init_def kNextWriterNone_def)
  then show "\<exists>x1 x3 x4.
            acquire_unconditional_rw_writer_ext fuel t1 x = Ret (cur_block x t1 + 1) x1
          \<and> spinning (acquire_try_rw_reader_ext (Suc (Suc fuel)) t2 x1)
          \<and> lock (mem_of (acquire_try_rw_reader_ext (Suc (Suc fuel)) t2 x1)) = lock x1
          \<and> blocks (mem_of (acquire_try_rw_reader_ext (Suc (Suc fuel)) t2 x1)) = blocks x1
          \<and> release_rw_writer_ext t1 (cur_block x t1 + 1)
               (mem_of (acquire_try_rw_reader_ext (Suc (Suc fuel)) t2 x1)) = Ret () x3
          \<and> resume (acquire_try_rw_reader_ext (Suc (Suc fuel)) t2 x1) x3 = Ret (cur_block x t2 + 1) x4
          \<and> cur_block x t2 + 1 \<noteq> 0
          \<and> lock x4 = \<lparr>tail = to_tail_int t2 (cur_block x t2 + 1), next_writer = 0, nreaders = 1\<rparr>"
    using 1 w(1,2) 3 4 nz
    by (simp add: acquire_unconditional_rw_writer_ext_def release_rw_writer_ext_def)
qed

theorem ext_try_reader_waits_for_writer_witness:
  "lock fresh_smem = McsRwLock_init \<and> lock fresh_xmem = McsRwLock_init
   \<and> (\<exists>s1 s2. acquire_unconditional_rw_writer_simple 1 fresh_smem = Ret 1 s1
         \<and> acquire_try_rw_reader_simple False 2 s1 = Ret 0 s2 \<and> lock s2 = lock s1)
   \<and> (\<exists>x1 x3 x4. acquire_unconditional_rw_writer_ext 0 1 fresh_xmem = Ret 1 x1
         \<and> spinning (acquire_try_rw_reader_ext 2 2 x1)
         \<and> release_rw_writer_ext 1 1 (mem_of (acquire_try_rw_reader_ext 2 2 x1)) = Ret () x3
         \<and> resume (acquire_try_rw_reader_ext 2 2 x1) x3 = Ret 1 x4
         \<and> lock x4 = \<lparr>tail = to_tail_int 2 1, next_writer = 0, nreaders = 1\<rparr>)"
proof -
  have h: "lock fresh_smem = McsRwLock_init" "lock fresh_xmem = McsRwLock_init"
    "(1 :: ThreadId) \<noteq> 2"
    "cur_block fresh_smem 1 < 0xFFFF" "cur_block fresh_smem 2 < 0xFFFF"
    "cur_block fresh_xmem 1 < 0xFFFF" "cur_block fresh_xmem 2 < 0xFFFF"
    by (simp_all add: fresh_smem_def fresh_xmem_def fresh_mem_def)
  have c: "cur_block fresh_smem 1 + 1 = 1" "cur_block fresh_smem 2 + 1 = 1"
    "cur_block fresh_xmem 1 + 1 = 1" "cur_block fresh_xmem 2 + 1 = 1"
    "Suc (Suc 0) = 2"
    by (simp_all add: fresh_smem_def fresh_xmem_def fresh_mem_def)
  from ext_try_reader_waits_for_writer [OF h, of False 0]
  have "(\<exists>s1 s2. acquire_unconditional_rw_writer_simple 1 fresh_smem = Ret 1 s1
         \<and> acquire_try_rw_reader_simple False 2 s1 = Ret 0 s2 \<and> lock s2 = lock s1)
   \<and> (\<exists>x1 x3 x4. acquire_unconditional_rw_writer_ext 0 1 fresh_xmem = Ret 1 x1
         \<and> spinning (acquire_try_rw_reader_ext 2 2 x1)
         \<and> release_rw_writer_ext 1 1 (mem_of (acquire_try_rw_reader_ext 2 2 x1)) = Ret () x3
         \<and> resume (acquire_try_rw_reader_ext 2 2 x1) x3 = Ret 1 x4
         \<and> lock x4 = \<lparr>tail = to_tail_int 2 1, next_writer = 0, nreaders = 1\<rparr>)"
    unfolding c by blast
  with h(1,2) show ?thesis by simp
qed

section \<open>The guards of a writer's grant\<close>

text \<open>
  A writer acquire that returns without waiting has taken the path for an empty queue: it
  read tail 0 and then \<^verbatim>\<open>nreaders == 0\<close>. Every other path waits for the block to be
  granted by the thread that releases.
\<close>

lemma simple_writer_immediate_grant:
  assumes "acquire_unconditional_rw_writer_simple t s = Ret b s'"
  shows "tail (lock s) = 0 \<and> nreaders (lock s) = 0 \<and> nreaders (lock s') = 0
       \<and> b = cur_block s t + 1"
  using assms
  by (auto simp: acquire_unconditional_rw_writer_simple_def issue_new_block_def Let_def
      spin_until_def mcs_defs split: if_splits)

lemma ext_writer_immediate_grant:
  assumes "acquire_unconditional_rw_writer_ext fuel t s = Ret b s'"
  shows "tail (lock s) = 0 \<and> nreaders (lock s) = 0 \<and> nreaders (lock s') = 0
       \<and> b = cur_block s t + 1"
  using assms
  by (auto simp: acquire_unconditional_rw_writer_ext_def acquire_writer_lock_def init_block_def
      issue_new_block_def timeout_granted_def Let_def spin_until_def mcs_defs
      kTimeoutNever_def split: if_splits)

text \<open>
  A reader release touches a block only on the path that hands the lock to the pending
  \<^verbatim>\<open>next_writer\<close>, and it takes that path only when its own decrement has brought
  \<^verbatim>\<open>nreaders\<close> from 1 to 0.
\<close>

lemma simple_reader_release_wakes_only_without_readers:
  assumes "release_rw_reader_simple t b s = Ret () s'" "blocks s' \<noteq> blocks s"
  shows "nreaders (lock s) = 1 \<and> nreaders (lock s') = 0"
  using assms
  by (auto simp: release_rw_reader_simple_def Let_def spin_until_def mcs_defs split: if_splits)

lemma ext_finish_release_wakes_only_without_readers:
  assumes "spinning (finish_release_reader_lock s)
         \<or> blocks (mem_of (finish_release_reader_lock s)) \<noteq> blocks s"
  shows "nreaders (lock s) = 1 \<and> nreaders (lock (mem_of (finish_release_reader_lock s))) = 0
       \<and> next_writer (lock s) \<noteq> kNextWriterNone"
  using assms
  by (auto simp: finish_release_reader_lock_def Let_def spin_until_def mcs_defs split: if_splits)

end
